theory Spec2Isabelle
  imports Complex_Main
begin

section \<open>Python values, exceptions and time\<close>

text \<open>
  The exceptions that the modelled code can raise.  A function that may raise returns
  \<open>pyerr + 'a\<close>, with \<open>Inl\<close> for the exception.
\<close>

datatype pyerr =
    TypeError
  | KeyError
  | ValueError
  | OverflowError
  | AttributeError
  | AssertionError
  | RuntimeError
  | FileNotFoundError
  | ApiException
  | OAuthError
  | CalledProcessError
  | ipxeTimestampNoEnt

definition bind_err :: "pyerr + 'a \<Rightarrow> ('a \<Rightarrow> pyerr + 'b) \<Rightarrow> pyerr + 'b" where
  "bind_err m f = (case m of Inl e \<Rightarrow> Inl e | Inr x \<Rightarrow> f x)"

text \<open>
  Python floats are idealised as real numbers of seconds.  A \<open>datetime\<close> and a
  \<open>timedelta\<close> have microsecond resolution: both are modelled as an integer number of
  microseconds, a \<open>datetime\<close> counted from the epoch.  Both types are bounded: a
  \<open>datetime\<close> lies between the years 1 and 9999, a \<open>timedelta\<close> within 999999999 days,
  and an operation whose result would leave the range raises.  Time zones are not
  modelled.
\<close>

type_synonym datetime = int
type_synonym timedelta = int

definition datetime_min :: datetime where
  "datetime_min = - 62135596800000000"

definition datetime_max :: datetime where
  "datetime_max = 253402300799999999"

definition timedelta_min :: timedelta where
  "timedelta_min = - 86399999913600000000"

definition timedelta_max :: timedelta where
  "timedelta_max = 86399999999999999999"

text \<open>The largest number of seconds that a 64-bit \<open>time_t\<close> holds.\<close>

definition time_t_max :: real where
  "time_t_max = 9223372036854775807"

definition round_half_even :: "real \<Rightarrow> int" where
  "round_half_even x =
     (let f = \<lfloor>x\<rfloor>; d = x - of_int f
      in if d < 1 / 2 then f
         else if 1 / 2 < d then f + 1
         else if even f then f else f + 1)"

text \<open>
  \<open>datetime.fromtimestamp\<close>: the float is rounded to the nearest microsecond, ties to
  even.  A time stamp that does not fit a \<open>time_t\<close> raises \<open>OverflowError\<close>, one whose
  year is not between 1 and 9999 raises \<open>ValueError\<close>.
\<close>

definition fromtimestamp :: "real \<Rightarrow> pyerr + datetime" where
  "fromtimestamp t =
     (let d = round_half_even (t * 1000000)
      in if datetime_min \<le> d \<and> d \<le> datetime_max then Inr d
         else if abs t \<le> time_t_max then Inl ValueError
         else Inl OverflowError)"

text \<open>\<open>datetime.timedelta(seconds=s)\<close>, rounded in the same way.\<close>

definition timedelta_seconds :: "real \<Rightarrow> pyerr + timedelta" where
  "timedelta_seconds s =
     (let d = round_half_even (s * 1000000)
      in if timedelta_min \<le> d \<and> d \<le> timedelta_max then Inr d else Inl OverflowError)"

text \<open>\<open>datetime + timedelta\<close>.\<close>

definition datetime_add :: "datetime \<Rightarrow> timedelta \<Rightarrow> pyerr + datetime" where
  "datetime_add d td =
     (if datetime_min \<le> d + td \<and> d + td \<le> datetime_max then Inr (d + td)
      else Inl OverflowError)"

text \<open>\<open>datetime.timestamp()\<close>.\<close>

definition timestamp_of :: "datetime \<Rightarrow> real" where
  "timestamp_of d = of_int d / 1000000"

section \<open>The timestamp file (liveness/ipxe\_timestamp.py)\<close>

text \<open>
  The timestamp file holds a JSON object.  Its values are JSON numbers or \<open>null\<close>
  (\<open>None\<close> below); a key may be missing.  The file system maps a path to the parsed
  content of the file at that path, when there is one; directories are not modelled.
\<close>

type_synonym tsdata = "string \<rightharpoonup> real option"
type_synonym tsfs = "string \<rightharpoonup> tsdata"

definition LIVENESS_PATH :: string where
  "LIVENESS_PATH = ''/tmp/ipxe_build_in_progress''"

text \<open>\<open>float(x)\<close> for a JSON number or \<open>None\<close>.\<close>

definition py_float :: "real option \<Rightarrow> pyerr + real" where
  "py_float v = (case v of None \<Rightarrow> Inl TypeError | Some r \<Rightarrow> Inr r)"

text \<open>\<open>d[k]\<close> on a dict.\<close>

definition getitem :: "('k \<rightharpoonup> 'v) \<Rightarrow> 'k \<Rightarrow> pyerr + 'v" where
  "getitem d k = (case d k of None \<Rightarrow> Inl KeyError | Some v \<Rightarrow> Inr v)"

text \<open>\<open>os.path.dirname\<close>.\<close>

definition dirname :: "string \<Rightarrow> string" where
  "dirname p =
     (let head = rev (dropWhile (\<lambda>c. c \<noteq> CHR ''/'') (rev p))
      in if head \<noteq> [] \<and> \<not> list_all (\<lambda>c. c = CHR ''/'') head
         then rev (dropWhile (\<lambda>c. c = CHR ''/'') (rev head))
         else head)"

text \<open>
  \<open>ipxeTimestamp.__init__\<close>: the directory of the path is created first, and
  \<open>os.makedirs('')\<close>, for a path with no directory part, raises \<open>FileNotFoundError\<close>.
  Then the record is written, overwriting any file at the path; without \<open>when\<close> it
  holds the current time.
\<close>

definition ipxeTimestamp_init ::
  "tsfs \<Rightarrow> string \<Rightarrow> real \<Rightarrow> datetime option \<Rightarrow> datetime \<Rightarrow> pyerr + tsfs" where
  "ipxeTimestamp_init fs path max_age when now =
     (if dirname path = [] then Inl FileNotFoundError
      else
        let timestamp = (case when of None \<Rightarrow> timestamp_of now | Some w \<Rightarrow> timestamp_of w)
        in Inr (fs(path \<mapsto> [''timestamp'' \<mapsto> Some timestamp,
                               ''max_age'' \<mapsto> Some max_age,
                               ''last_build'' \<mapsto> None])))"

text \<open>\<open>ipxeTimestamp.byref\<close>: the handle is the path.\<close>

definition byref :: "tsfs \<Rightarrow> string \<Rightarrow> pyerr + string" where
  "byref fs path = (if fs path \<noteq> None then Inr path else Inl ipxeTimestampNoEnt)"

text \<open>The getter and the setter of the property \<open>_data\<close>.\<close>

definition data_get :: "tsfs \<Rightarrow> string \<Rightarrow> tsdata" where
  "data_get fs path =
     (case fs path of
        Some d \<Rightarrow> d
      | None \<Rightarrow> [''timestamp'' \<mapsto> None, ''max_age'' \<mapsto> None, ''last_build'' \<mapsto> None])"

definition data_set :: "tsfs \<Rightarrow> string \<Rightarrow> tsdata \<Rightarrow> tsfs" where
  "data_set fs path dict_obj = fs(path \<mapsto> dict_obj)"

text \<open>
  The getter of \<open>value\<close>: only \<open>KeyError\<close> is caught, so \<open>float(None)\<close> propagates as
  \<open>TypeError\<close>, and so does what \<open>fromtimestamp\<close> raises.
\<close>

definition value_get :: "tsfs \<Rightarrow> string \<Rightarrow> pyerr + datetime option" where
  "value_get fs path =
     (case getitem (data_get fs path) ''timestamp'' of
        Inl e \<Rightarrow> Inr None
      | Inr v \<Rightarrow>
          bind_err (py_float v) (\<lambda>r.
          bind_err (fromtimestamp r) (\<lambda>d. Inr (Some d))))"

text \<open>
  The setters of \<open>value\<close> and \<open>last_build\<close>: a falsy \<open>when\<close> (\<open>None\<close> or \<open>0.0\<close>) is
  replaced by the current time.
\<close>

definition value_set :: "tsfs \<Rightarrow> string \<Rightarrow> real option \<Rightarrow> datetime \<Rightarrow> tsfs" where
  "value_set fs path when now =
     (let w = (case when of
                 None \<Rightarrow> timestamp_of now
               | Some t \<Rightarrow> if t = 0 then timestamp_of now else t)
      in data_set fs path ((data_get fs path)(''timestamp'' \<mapsto> Some w)))"

text \<open>
  The getter of \<open>last_build\<close>: \<open>KeyError\<close> and \<open>TypeError\<close> are caught; what
  \<open>fromtimestamp\<close> raises is not.
\<close>

definition last_build_get :: "tsfs \<Rightarrow> string \<Rightarrow> pyerr + datetime option" where
  "last_build_get fs path =
     (case getitem (data_get fs path) ''last_build'' of
        Inl e \<Rightarrow> Inr None
      | Inr v \<Rightarrow>
          (case py_float v of
             Inl e \<Rightarrow> Inr None
           | Inr r \<Rightarrow> bind_err (fromtimestamp r) (\<lambda>d. Inr (Some d))))"

definition last_build_set :: "tsfs \<Rightarrow> string \<Rightarrow> real option \<Rightarrow> datetime \<Rightarrow> tsfs" where
  "last_build_set fs path when now =
     (let w = (case when of
                 None \<Rightarrow> timestamp_of now
               | Some t \<Rightarrow> if t = 0 then timestamp_of now else t)
      in data_set fs path ((data_get fs path)(''last_build'' \<mapsto> Some w)))"

text \<open>
  \<open>last_build_age\<close>: \<open>None\<close> stands for the string \<open>'Never'\<close>.  The property reads
  \<open>last_build\<close> a second time for the subtraction; the difference of two values of
  \<open>datetime\<close> is always a \<open>timedelta\<close>.
\<close>

definition last_build_age :: "tsfs \<Rightarrow> string \<Rightarrow> datetime \<Rightarrow> pyerr + timedelta option" where
  "last_build_age fs path now =
     bind_err (last_build_get fs path) (\<lambda>last_build.
       case last_build of
         None \<Rightarrow> Inr None
       | Some lb \<Rightarrow>
           bind_err (last_build_get fs path) (\<lambda>again.
             case again of
               None \<Rightarrow> Inl TypeError
             | Some lb' \<Rightarrow> Inr (Some (now - lb'))))"

definition max_age :: "tsfs \<Rightarrow> string \<Rightarrow> pyerr + real" where
  "max_age fs path =
     bind_err (getitem (data_get fs path) ''max_age'') py_float"

definition max_delta :: "tsfs \<Rightarrow> string \<Rightarrow> pyerr + timedelta" where
  "max_delta fs path =
     bind_err (max_age fs path) timedelta_seconds"

text \<open>
  \<open>expiration_date\<close>: \<open>self.value + self.max_delta\<close>; when \<open>value\<close> is \<open>None\<close> the addition
  raises \<open>TypeError\<close> (after \<open>max_delta\<close> has been evaluated).
\<close>

definition expiration_date :: "tsfs \<Rightarrow> string \<Rightarrow> pyerr + datetime" where
  "expiration_date fs path =
     bind_err (value_get fs path) (\<lambda>v.
     bind_err (max_delta fs path) (\<lambda>md.
       case v of None \<Rightarrow> Inl TypeError | Some t \<Rightarrow> datetime_add t md))"

definition expired :: "tsfs \<Rightarrow> string \<Rightarrow> datetime \<Rightarrow> pyerr + bool" where
  "expired fs path now =
     bind_err (expiration_date fs path) (\<lambda>ed. Inr (now > ed))"

text \<open>
  \<open>recent_build\<close>: \<open>last_build_age\<close> is read once for the type test and once more for the
  comparison, which raises \<open>TypeError\<close> on the string \<open>'Never'\<close>.
\<close>

definition recent_build :: "tsfs \<Rightarrow> string \<Rightarrow> datetime \<Rightarrow> pyerr + bool" where
  "recent_build fs path now =
     bind_err (last_build_age fs path now) (\<lambda>a.
       case a of
         None \<Rightarrow> Inr False
       | Some d \<Rightarrow>
           bind_err (last_build_age fs path now) (\<lambda>a'.
           bind_err (max_delta fs path) (\<lambda>md.
             case a' of None \<Rightarrow> Inl TypeError | Some d' \<Rightarrow> Inr (d' < md))))"

text \<open>\<open>alive\<close>: the list given to \<open>any\<close> is built first, so both properties are read.\<close>

definition alive :: "tsfs \<Rightarrow> string \<Rightarrow> datetime \<Rightarrow> pyerr + bool" where
  "alive fs path now =
     bind_err (expired fs path now) (\<lambda>ex.
     bind_err (recent_build fs path now) (\<lambda>rb.
       Inr (\<not> ex \<or> rb)))"

definition refresh :: "tsfs \<Rightarrow> string \<Rightarrow> datetime \<Rightarrow> tsfs" where
  "refresh fs path now = value_set fs path (Some (timestamp_of now)) now"

definition refresh_build :: "tsfs \<Rightarrow> string \<Rightarrow> datetime \<Rightarrow> tsfs" where
  "refresh_build fs path now = last_build_set fs path None now"

text \<open>\<open>delete\<close>: \<open>os.remove\<close> raises when there is no file at the path.\<close>

definition delete :: "tsfs \<Rightarrow> string \<Rightarrow> pyerr + tsfs" where
  "delete fs path = (if fs path = None then Inl FileNotFoundError else Inr (fs(path := None)))"

text \<open>
  \<open>liveliness_heartbeat\<close>, the body of the heartbeat thread: as long as the main thread is
  alive, the record is refreshed every ten seconds.  Each round is given by what
  \<open>MAIN_THREAD.is_alive()\<close> answers and by the time of the refresh; the thread ends at
  the first round that finds the main thread dead.
\<close>

fun heartbeat_rounds :: "tsfs \<Rightarrow> string \<Rightarrow> (bool \<times> datetime) list \<Rightarrow> tsfs" where
  "heartbeat_rounds fs timestamp [] = fs"
| "heartbeat_rounds fs timestamp ((main_alive, now) # rounds) =
     (if \<not> main_alive then fs
      else heartbeat_rounds (refresh fs timestamp now) timestamp rounds)"

definition liveliness_heartbeat :: "tsfs \<Rightarrow> string \<Rightarrow> (bool \<times> datetime) list \<Rightarrow> pyerr + tsfs" where
  "liveliness_heartbeat fs path rounds =
     bind_err (byref fs path) (\<lambda>timestamp. Inr (heartbeat_rounds fs timestamp rounds))"

section \<open>The liveness probe (liveness/\_\_main\_\_.py)\<close>

text \<open>
  The outcome of the one-shot probe: \<open>sys.exit(n)\<close> after the warnings logged so far, or
  an exception that nothing catches, on which the interpreter prints a traceback and
  exits with status 1.
\<close>

datatype outcome = SysExit int "string list" | Traceback pyerr

fun exit_status :: "outcome \<Rightarrow> int" where
  "exit_status (SysExit n logs) = n"
| "exit_status (Traceback e) = 1"

definition liveness_main :: "tsfs \<Rightarrow> datetime \<Rightarrow> outcome" where
  "liveness_main fs now =
     (case byref fs LIVENESS_PATH of
        Inl e \<Rightarrow>
          (if e = ipxeTimestampNoEnt
           then SysExit 1 [''No timestamp information has been made available yet.'']
           else Traceback e)
      | Inr timestamp \<Rightarrow>
          (case alive fs timestamp now of
             Inl e \<Rightarrow> (if e = ipxeTimestampNoEnt
                       then SysExit 1 [''No timestamp information has been made available yet.'']
                       else Traceback e)
           | Inr a \<Rightarrow>
               if a then SysExit 0 []
               else SysExit 1 [''Timestamp %s has expired'']))"

section \<open>Python scalars and strings\<close>

text \<open>
  The scalar values that a YAML document or a JSON object can hold here, and the values
  that \<open>yaml.safe_load\<close> returns: a scalar, or a mapping from strings to scalars (an
  association list, looked up with \<open>map_of\<close>).
\<close>

datatype scalar = SNone | SBool bool | SInt int | SStr string

datatype pyval = Atom scalar | Dict "(string \<times> scalar) list"

text \<open>Truthiness, as \<open>if x:\<close> and \<open>not x\<close> test it.\<close>

fun scalar_truthy :: "scalar \<Rightarrow> bool" where
  "scalar_truthy SNone = False"
| "scalar_truthy (SBool b) = b"
| "scalar_truthy (SInt i) = (i \<noteq> 0)"
| "scalar_truthy (SStr s) = (s \<noteq> [])"

fun truthy :: "pyval \<Rightarrow> bool" where
  "truthy (Atom a) = scalar_truthy a"
| "truthy (Dict kvs) = (kvs \<noteq> [])"

text \<open>
  Equality, as \<open>==\<close> and \<open>!=\<close> compute it: \<open>bool\<close> is a subclass of \<open>int\<close>, so
  \<open>True == 1\<close>; two dicts are equal when they have the same keys with equal values,
  whatever the order.
\<close>

fun scalar_eq :: "scalar \<Rightarrow> scalar \<Rightarrow> bool" where
  "scalar_eq SNone SNone = True"
| "scalar_eq (SBool a) (SBool b) = (a = b)"
| "scalar_eq (SBool a) (SInt j) = ((if a then 1 else 0) = j)"
| "scalar_eq (SInt i) (SBool b) = (i = (if b then 1 else 0))"
| "scalar_eq (SInt i) (SInt j) = (i = j)"
| "scalar_eq (SStr s) (SStr t) = (s = t)"
| "scalar_eq a b = False"

definition lookup_eq :: "scalar option \<Rightarrow> scalar option \<Rightarrow> bool" where
  "lookup_eq x y =
     (case (x, y) of
        (None, None) \<Rightarrow> True
      | (Some a, Some b) \<Rightarrow> scalar_eq a b
      | _ \<Rightarrow> False)"

fun py_eq :: "pyval \<Rightarrow> pyval \<Rightarrow> bool" where
  "py_eq (Atom a) (Atom b) = scalar_eq a b"
| "py_eq (Dict xs) (Dict ys) =
     list_all (\<lambda>k. lookup_eq (map_of xs k) (map_of ys k)) (map fst xs @ map fst ys)"
| "py_eq a b = False"

text \<open>\<open>d.get(key, default)\<close>: only a dict has the method.  A key that is \<open>None\<close> (an unset
  class attribute) is in no dict.\<close>

definition py_get :: "pyval \<Rightarrow> string option \<Rightarrow> scalar \<Rightarrow> pyerr + scalar" where
  "py_get d key dflt =
     (case d of
        Atom a \<Rightarrow> Inl AttributeError
      | Dict kvs \<Rightarrow>
          (case key of
             None \<Rightarrow> Inr dflt
           | Some k \<Rightarrow> (case map_of kvs k of None \<Rightarrow> Inr dflt | Some v \<Rightarrow> Inr v)))"

text \<open>Decimal digits.\<close>

definition digit_value :: "char \<Rightarrow> int option" where
  "digit_value c =
     map_of [(CHR ''0'', 0), (CHR ''1'', 1), (CHR ''2'', 2), (CHR ''3'', 3), (CHR ''4'', 4),
             (CHR ''5'', 5), (CHR ''6'', 6), (CHR ''7'', 7), (CHR ''8'', 8), (CHR ''9'', 9)] c"

definition digit_char :: "nat \<Rightarrow> char" where
  "digit_char d = ''0123456789'' ! (d mod 10)"

fun show_nat_aux :: "nat \<Rightarrow> nat \<Rightarrow> string \<Rightarrow> string" where
  "show_nat_aux 0 n acc = acc"
| "show_nat_aux (Suc fuel) n acc =
     (if n < 10 then digit_char n # acc
      else show_nat_aux fuel (n div 10) (digit_char n # acc))"

definition show_nat :: "nat \<Rightarrow> string" where
  "show_nat n = show_nat_aux (Suc n) n []"

definition show_int :: "int \<Rightarrow> string" where
  "show_int i = (if i < 0 then CHR ''-'' # show_nat (nat (- i)) else show_nat (nat i))"

text \<open>\<open>'%s' % x\<close> and \<open>str(x)\<close>.\<close>

fun py_str :: "scalar \<Rightarrow> string" where
  "py_str SNone = ''None''"
| "py_str (SBool b) = (if b then ''True'' else ''False'')"
| "py_str (SInt i) = show_int i"
| "py_str (SStr s) = s"

text \<open>
  White space, as \<open>str.strip\<close>, \<open>str.rstrip\<close> and \<open>int\<close> see it.  A string of the model
  is a list of characters with code points below 256; among them the white space is the
  blank, the tab to the carriage return, the four separators from \<open>0x1C\<close> to \<open>0x1F\<close>,
  the next-line character \<open>0x85\<close> and the no-break space \<open>0xA0\<close>.
\<close>

definition is_space :: "char \<Rightarrow> bool" where
  "is_space c =
     (c \<in> set [CHR '' '', CHR 0x09, CHR 0x0A, CHR 0x0B, CHR 0x0C, CHR 0x0D,
                CHR 0x1C, CHR 0x1D, CHR 0x1E, CHR 0x1F, CHR 0x85, CHR 0xA0])"

definition strip :: "string \<Rightarrow> string" where
  "strip s = rev (dropWhile is_space (rev (dropWhile is_space s)))"

definition rstrip :: "string \<Rightarrow> string" where
  "rstrip s = rev (dropWhile is_space (rev s))"

text \<open>
  \<open>int(x)\<close>.  For a string: surrounding white space is dropped, then an optional sign and
  a non-empty run of decimal digits, where single underscores may separate digits.
\<close>

fun dec_digits :: "string \<Rightarrow> int \<Rightarrow> int option" where
  "dec_digits [] acc = Some acc"
| "dec_digits (c # cs) acc =
     (case digit_value c of
        Some d \<Rightarrow> dec_digits cs (10 * acc + d)
      | None \<Rightarrow>
          (if c = CHR ''_'' then
             (case cs of
                [] \<Rightarrow> None
              | c' # cs' \<Rightarrow> if digit_value c' = None then None else dec_digits cs acc)
           else None))"

definition parse_nat :: "string \<Rightarrow> int option" where
  "parse_nat s =
     (case s of
        [] \<Rightarrow> None
      | c # cs \<Rightarrow> if digit_value c = None then None else dec_digits s 0)"

definition int_of_string :: "string \<Rightarrow> pyerr + int" where
  "int_of_string s =
     (let t = strip s;
          r = (case t of
                 [] \<Rightarrow> None
               | c # cs \<Rightarrow>
                   if c = CHR ''-'' then map_option uminus (parse_nat cs)
                   else if c = CHR ''+'' then parse_nat cs
                   else parse_nat t)
      in case r of None \<Rightarrow> Inl ValueError | Some i \<Rightarrow> Inr i)"

fun py_int :: "scalar \<Rightarrow> pyerr + int" where
  "py_int SNone = Inl TypeError"
| "py_int (SBool b) = Inr (if b then 1 else 0)"
| "py_int (SInt i) = Inr i"
| "py_int (SStr s) = int_of_string s"

text \<open>\<open>int(x)\<close> for a float: truncation towards zero.\<close>

definition int_of_float :: "real \<Rightarrow> int" where
  "int_of_float x = (if 0 \<le> x then \<lfloor>x\<rfloor> else \<lceil>x\<rceil>)"

section \<open>Bearer tokens (tokens.py)\<close>

definition TOKEN_HOST :: string where
  "TOKEN_HOST = ''api-gw-service-nmn.local''"

text \<open>
  \<open>token_expiring_soon\<close>.  \<open>jwt.decode\<close> is a parameter: it gives the claims of a token,
  a map from claim names to numbers, or \<open>None\<close> when decoding raises.  \<open>now\<close> is the
  reading of \<open>time.time()\<close>.
\<close>

definition token_expiring_soon ::
  "(string \<Rightarrow> (string \<rightharpoonup> int) option) \<Rightarrow> real \<Rightarrow> string option \<Rightarrow> scalar \<Rightarrow> pyerr + bool" where
  "token_expiring_soon jwt_decode now bearer_token min_remaining_valid_time =
     (case bearer_token of
        None \<Rightarrow> Inr True
      | Some tok \<Rightarrow>
          (case jwt_decode tok of
             None \<Rightarrow> Inr True
           | Some tokenMap \<Rightarrow>
               (case tokenMap ''exp'' of
                  None \<Rightarrow> Inr True
                | Some tokenExp \<Rightarrow>
                    (let tnow = int_of_float now
                     in bind_err (py_int min_remaining_valid_time) (\<lambda>m.
                          let tmax = tokenExp - m
                          in if tnow \<ge> tmax then Inr True else Inr False)))))"

section \<open>The builder (builder.py)\<close>

subsection \<open>State, environment and effects\<close>

definition IPXE_BUILD_DIR :: string where
  "IPXE_BUILD_DIR = ''/ipxe''"

definition PUBLISHING_DIR :: string where
  "PUBLISHING_DIR = ''/shared_tftp''"

definition CONFIGMAP_CACHE_TIMEOUT :: real where
  "CONFIGMAP_CACHE_TIMEOUT = 600"

definition TIME_BETWEEN_BUILDCHECKS :: int where
  "TIME_BETWEEN_BUILDCHECKS = 60"

text \<open>The three builder classes and their class attributes.\<close>

datatype cls = BinaryBuilder | X86Builder | Arm64builder

fun ARCH :: "cls \<Rightarrow> string option" where
  "ARCH BinaryBuilder = None"
| "ARCH X86Builder = Some ''x86_64''"
| "ARCH Arm64builder = Some ''arm64''"

fun ENABLED_TAG :: "cls \<Rightarrow> string option" where
  "ENABLED_TAG BinaryBuilder = None"
| "ENABLED_TAG X86Builder = Some ''cray_ipxe_build_x86''"
| "ENABLED_TAG Arm64builder = Some ''cray_ipxe_build_aarch64''"

fun ENABLED_DEBUG_TAG :: "cls \<Rightarrow> string option" where
  "ENABLED_DEBUG_TAG BinaryBuilder = None"
| "ENABLED_DEBUG_TAG X86Builder = Some ''cray_ipxe_debug_enabled''"
| "ENABLED_DEBUG_TAG Arm64builder = Some ''cray_ipxe_aarch64_debug_enabled''"

fun BINARY_NAME_TAG :: "cls \<Rightarrow> string option" where
  "BINARY_NAME_TAG BinaryBuilder = None"
| "BINARY_NAME_TAG X86Builder = Some ''cray_ipxe_binary_name''"
| "BINARY_NAME_TAG Arm64builder = Some ''cray_ipxe_aarch64_binary_name''"

fun DEBUG_BINARY_NAME_TAG :: "cls \<Rightarrow> string option" where
  "DEBUG_BINARY_NAME_TAG BinaryBuilder = None"
| "DEBUG_BINARY_NAME_TAG X86Builder = Some ''cray_ipxe_debug_binary_name''"
| "DEBUG_BINARY_NAME_TAG Arm64builder = Some ''cray_ipxe_aarch64_debug_binary_name''"

fun MAKE_ADDENDUM :: "cls \<Rightarrow> string list" where
  "MAKE_ADDENDUM BinaryBuilder = []"
| "MAKE_ADDENDUM X86Builder = []"
| "MAKE_ADDENDUM Arm64builder = [''CROSS_COMPILE=aarch64-linux-gnu-'', ''ARCH=arm64'']"

text \<open>
  What the builder does to the outside, in the order it does it: a read of a config map
  (name, namespace), a request for a token, a run of the toolchain, a refresh of the
  build-completion marker, a move of a built binary, a sleep, a touch of a source file.
\<close>

datatype event =
    ReadConfigMap string string
  | FetchToken string
  | CheckCall string string
  | RefreshBuild
  | Move string string
  | Sleep int
  | UTime string

text \<open>
  The state: the attributes of the builder instance (a private attribute \<open>_x\<close> is the
  field \<open>priv_x\<close>; of the heartbeat thread, whether it has been started and, while it
  runs, when its next round is due), then the world it acts on: the config maps of the
  cluster, the text files, the timestamp files, the clock, the counter behind the names
  of temporary files, the level of the root logger, and the events so far.
\<close>

record state =
  klass :: cls
  priv_global_settings :: pyval
  priv_global_settings_timestamp :: "real option"
  priv_configmap_name :: "string option"
  priv_bss_script_path :: "string option"
  priv_debug_script_path :: "string option"
  priv_bearer_token :: "string option"
  priv_cert_path :: "string option"
  priv_arch_build_dir :: "string option"
  recreation_necessary :: bool
  heartbeat_started :: bool
  heartbeat_next :: "datetime option"
  cluster :: "string \<times> string \<rightharpoonup> (string \<rightharpoonup> string)"
  files :: "string \<rightharpoonup> string"
  timestamps :: tsfs
  clock :: datetime
  tmp_counter :: nat
  root_level :: int
  trace :: "event list"

text \<open>
  The library and remote behaviour that the builder only calls: the YAML parser, the JWT
  decoder, the token endpoint (token URL, client id, client secret), \<open>urlparse(x).hostname\<close>,
  and the toolchain (command, environment and the files it finds; \<open>None\<close> is a non-zero
  exit status, otherwise the files it leaves).
\<close>

record env =
  safe_load :: "string \<Rightarrow> pyerr + pyval"
  jwt_decode :: "string \<Rightarrow> (string \<rightharpoonup> int) option"
  keycloak :: "string \<Rightarrow> string \<Rightarrow> string \<Rightarrow> pyerr + (string \<times> string) list"
  urlparse_hostname :: "scalar \<Rightarrow> string option"
  toolchain :: "string \<Rightarrow> string \<Rightarrow> (string \<rightharpoonup> string) \<Rightarrow> (string \<rightharpoonup> string) option"

text \<open>
  An action takes the state and gives a result or an exception, and the state it leaves
  behind: the effects made before an exception stay.
\<close>

type_synonym 'a action = "state \<Rightarrow> (pyerr + 'a) \<times> state"

definition ret :: "'a \<Rightarrow> 'a action" where
  "ret x s = (Inr x, s)"

definition raise :: "pyerr \<Rightarrow> 'a action" where
  "raise e s = (Inl e, s)"

definition lift :: "pyerr + 'a \<Rightarrow> 'a action" where
  "lift r s = (r, s)"

definition bnd :: "'a action \<Rightarrow> ('a \<Rightarrow> 'b action) \<Rightarrow> 'b action" where
  "bnd m f s = (case m s of (Inl e, s') \<Rightarrow> (Inl e, s') | (Inr x, s') \<Rightarrow> f x s')"

definition emit :: "event \<Rightarrow> unit action" where
  "emit ev s = (Inr (), s\<lparr>trace := trace s @ [ev]\<rparr>)"

definition time_time :: "state \<Rightarrow> real" where
  "time_time s = timestamp_of (clock s)"

text \<open>\<open>api_instance.read_namespaced_config_map(name, namespace).data\<close>.\<close>

definition read_namespaced_config_map :: "string \<Rightarrow> string \<Rightarrow> (string \<rightharpoonup> string) action" where
  "read_namespaced_config_map name namespace =
     bnd (emit (ReadConfigMap name namespace)) (\<lambda>_ s.
       case cluster s (name, namespace) of
         None \<Rightarrow> (Inl ApiException, s)
       | Some d \<Rightarrow> (Inr d, s))"

text \<open>
  Text files.  A file opened with mode \<open>'r'\<close> is read with universal newlines: \<open>\r\n\<close> and
  \<open>\r\<close> come back as \<open>\n\<close>.  A file opened with mode \<open>'w'\<close> is written as it is.
\<close>

fun universal_newlines :: "string \<Rightarrow> string" where
  "universal_newlines [] = []"
| "universal_newlines [c] = (if c = CHR 0x0D then [CHR 0x0A] else [c])"
| "universal_newlines (c # d # cs) =
     (if c = CHR 0x0D then
        (if d = CHR 0x0A then CHR 0x0A # universal_newlines cs
         else CHR 0x0A # universal_newlines (d # cs))
      else c # universal_newlines (d # cs))"

definition read_file :: "string \<Rightarrow> string action" where
  "read_file path s =
     (case files s path of
        None \<Rightarrow> (Inl FileNotFoundError, s)
      | Some c \<Rightarrow> (Inr (universal_newlines c), s))"

definition unlink :: "string \<Rightarrow> unit action" where
  "unlink path s =
     (case files s path of
        None \<Rightarrow> (Inl FileNotFoundError, s)
      | Some c \<Rightarrow> (Inr (), s\<lparr>files := (files s)(path := None)\<rparr>))"

text \<open>
  \<open>with NamedTemporaryFile(dir=IPXE_BUILD_DIR, delete=False, mode='w') as f: f.write(v)\<close>,
  giving \<open>f.name\<close>.  The file is created empty under a new name; writing a value that is
  not a string raises \<open>TypeError\<close> and leaves the empty file.
\<close>

definition write_temp :: "pyval \<Rightarrow> string action" where
  "write_temp v s =
     (let name = IPXE_BUILD_DIR @ ''/tmp'' @ show_nat (tmp_counter s);
          s1 = s\<lparr>files := (files s)(name \<mapsto> []), tmp_counter := Suc (tmp_counter s)\<rparr>
      in case v of
           Atom (SStr t) \<Rightarrow> (Inr name, s1\<lparr>files := (files s1)(name \<mapsto> t)\<rparr>)
         | _ \<Rightarrow> (Inl TypeError, s1))"

text \<open>\<open>os.path.basename\<close> and \<open>os.path.join\<close> of two components.\<close>

definition basename :: "string \<Rightarrow> string" where
  "basename p = rev (takeWhile (\<lambda>c. c \<noteq> CHR ''/'') (rev p))"

definition path_join :: "string \<Rightarrow> string \<Rightarrow> string" where
  "path_join a b =
     (case b of
        [] \<Rightarrow> (if a = [] \<or> last a = CHR ''/'' then a else a @ ''/'')
      | c # cs \<Rightarrow>
          if c = CHR ''/'' then b
          else if a = [] \<or> last a = CHR ''/'' then a @ b
          else a @ ''/'' @ b)"

definition opt_truthy :: "string option \<Rightarrow> bool" where
  "opt_truthy p = (case p of None \<Rightarrow> False | Some t \<Rightarrow> t \<noteq> [])"

definition opt_val :: "string option \<Rightarrow> pyval" where
  "opt_val p = (case p of None \<Rightarrow> Atom SNone | Some t \<Rightarrow> Atom (SStr t))"

definition opt_str :: "string option \<Rightarrow> string" where
  "opt_str p = (case p of None \<Rightarrow> ''None'' | Some t \<Rightarrow> t)"

subsection \<open>Tracked remote artifacts\<close>

text \<open>
  \<open>global_settings\<close>: the cache is dropped when it is older than the timeout, fetched when
  it is empty, and a value that differs from the one held on entry flags a rebuild.
\<close>

definition global_settings :: "env \<Rightarrow> pyval action" where
  "global_settings E s =
     (let local_settings = priv_global_settings s;
          s1 = (case priv_global_settings_timestamp s of
                  None \<Rightarrow> s
                | Some t \<Rightarrow>
                    if truthy (priv_global_settings s) \<and> t \<noteq> 0 \<and>
                       time_time s - t > CONFIGMAP_CACHE_TIMEOUT
                    then s\<lparr>priv_global_settings := Atom SNone,
                           priv_global_settings_timestamp := None\<rparr>
                    else s)
      in bnd (if \<not> truthy (priv_global_settings s1)
              then bnd (read_namespaced_config_map ''cray-ipxe-settings'' ''services'') (\<lambda>data.
                   bnd (lift (getitem data ''settings.yaml'')) (\<lambda>txt.
                   bnd (lift (safe_load E txt)) (\<lambda>v s2.
                     (Inr (), s2\<lparr>priv_global_settings := v,
                                 priv_global_settings_timestamp := Some (time_time s2)\<rparr>))))
              else ret ())
             (\<lambda>_ s3.
                let s4 = (if \<not> py_eq local_settings (priv_global_settings s3)
                          then s3\<lparr>recreation_necessary := True\<rparr> else s3)
                in (Inr (priv_global_settings s4), s4))
             s1)"

definition enabled :: "env \<Rightarrow> scalar action" where
  "enabled E s =
     bnd (global_settings E) (\<lambda>gs. lift (py_get gs (ENABLED_TAG (klass s)) (SBool True))) s"

definition debug_enabled :: "env \<Rightarrow> scalar action" where
  "debug_enabled E s =
     bnd (global_settings E) (\<lambda>gs. lift (py_get gs (ENABLED_DEBUG_TAG (klass s)) (SBool True))) s"

definition binary_name :: "env \<Rightarrow> scalar action" where
  "binary_name E s =
     bnd (global_settings E) (\<lambda>gs.
     bnd (lift (py_get gs (BINARY_NAME_TAG (klass s)) SNone)) (\<lambda>n.
       if n = SNone then raise AssertionError else ret n)) s"

definition debug_binary_name :: "env \<Rightarrow> scalar action" where
  "debug_binary_name E s =
     bnd (global_settings E) (\<lambda>gs.
     bnd (lift (py_get gs (DEBUG_BINARY_NAME_TAG (klass s)) SNone)) (\<lambda>n.
       if n = SNone then raise AssertionError else ret n)) s"

definition build_with_certs :: "env \<Rightarrow> scalar action" where
  "build_with_certs E =
     bnd (global_settings E) (\<lambda>gs. lift (py_get gs (Some ''cray_ipxe_build_with_cert'') SNone))"

definition token_min_remaining_valid_time :: "env \<Rightarrow> scalar action" where
  "token_min_remaining_valid_time E =
     bnd (global_settings E) (\<lambda>gs.
       lift (py_get gs (Some ''cray_ipxe_token_min_remaining_valid_time'') (SStr ''1800'')))"

definition cray_ipxe_token_host :: "env \<Rightarrow> scalar action" where
  "cray_ipxe_token_host E =
     bnd (global_settings E) (\<lambda>gs.
       lift (py_get gs (Some ''cray_ipxe_token_host'') (SStr TOKEN_HOST)))"

text \<open>
  \<open>s3_host\<close>: \<open>KeyError\<close> and \<open>ApiException\<close> are caught and give \<open>None\<close>, as does a host
  name that is empty or missing.
\<close>

definition s3_host :: "env \<Rightarrow> string option action" where
  "s3_host E s =
     (case read_namespaced_config_map ''sts-rados-config'' ''services'' s of
        (Inl e, s1) \<Rightarrow> (if e = ApiException \<or> e = KeyError then (Inr None, s1) else (Inl e, s1))
      | (Inr data, s1) \<Rightarrow>
          (case data ''rados_conf'' of
             None \<Rightarrow> (Inr None, s1)
           | Some txt \<Rightarrow>
               (case safe_load E txt of
                  Inl e \<Rightarrow> (if e = ApiException \<or> e = KeyError then (Inr None, s1) else (Inl e, s1))
                | Inr conf \<Rightarrow>
                    (case py_get conf (Some ''int_endpoint_url'') SNone of
                       Inl e \<Rightarrow> (Inl e, s1)
                     | Inr ep \<Rightarrow>
                         (let rgw_s3_host = urlparse_hostname E ep
                          in if opt_truthy rgw_s3_host then (Inr rgw_s3_host, s1)
                             else (Inr None, s1))))))"

text \<open>
  The pattern \<open>if self._path: with open(self._path, 'r') as f: local = f.read()\<close>, with
  \<open>local = None\<close> before it.
\<close>

definition read_local :: "string option \<Rightarrow> string option action" where
  "read_local p =
     (if opt_truthy p
      then (case p of None \<Rightarrow> ret None | Some path \<Rightarrow> bnd (read_file path) (\<lambda>c. ret (Some c)))
      else ret None)"

definition cert_path :: "string option action" where
  "cert_path s =
     bnd (read_local (priv_cert_path s)) (\<lambda>existing_cert.
     bnd (read_namespaced_config_map ''cray-configmap-ca-public-key'' ''services'') (\<lambda>data.
     bnd (lift (getitem data ''certificate_authority.crt'')) (\<lambda>upstream_cert.
     bnd (if existing_cert \<noteq> Some upstream_cert
          then (\<lambda>s1.
                 bnd (\<lambda>s2. case priv_cert_path s2 of
                              None \<Rightarrow> (Inr (), s2)
                            | Some path \<Rightarrow>
                                if path \<noteq> [] \<and> files s2 path \<noteq> None
                                then bnd (unlink path)
                                       (\<lambda>_ s3. (Inr (), s3\<lparr>priv_cert_path := None\<rparr>)) s2
                                else (Inr (), s2))
                 (\<lambda>_. bnd (write_temp (Atom (SStr upstream_cert)))
                         (\<lambda>name s4. (Inr (), s4\<lparr>priv_cert_path := Some name\<rparr>)))
                 (s1\<lparr>recreation_necessary := True\<rparr>))
          else ret ())
     (\<lambda>_ s5. (Inr (priv_cert_path s5), s5))))) s"

text \<open>\<open>configmap_name\<close> is defined by the two subclasses only, with the same body.\<close>

definition X86Builder_configmap_name :: "string option action" where
  "X86Builder_configmap_name s =
     (let s1 = (if \<not> opt_truthy (priv_configmap_name s)
                then (let base_name = ''cray-ipxe-bss-ipxe'';
                          base_name = (if ARCH (klass s) = Some ''aarch64''
                                       then ''%s-aarch64'' else base_name)
                      in s\<lparr>priv_configmap_name := Some base_name\<rparr>)
                else s)
      in (Inr (priv_configmap_name s1), s1))"

definition Arm64builder_configmap_name :: "string option action" where
  "Arm64builder_configmap_name s =
     (let s1 = (if \<not> opt_truthy (priv_configmap_name s)
                then (let base_name = ''cray-ipxe-bss-ipxe'';
                          base_name = (if ARCH (klass s) = Some ''aarch64''
                                       then ''%s-aarch64'' else base_name)
                      in s\<lparr>priv_configmap_name := Some base_name\<rparr>)
                else s)
      in (Inr (priv_configmap_name s1), s1))"

definition configmap_name :: "string option action" where
  "configmap_name s =
     (case klass s of
        BinaryBuilder \<Rightarrow> (Inl AttributeError, s)
      | X86Builder \<Rightarrow> X86Builder_configmap_name s
      | Arm64builder \<Rightarrow> Arm64builder_configmap_name s)"

text \<open>
  \<open>bss_script_path\<close> and \<open>debug_script_path\<close>: the local copy is read back from its file
  and compared with the upstream value; the flag is set last, after the new copy is
  written.  The configmap name given to the API is a string; \<open>None\<close> cannot occur there.
\<close>

definition bss_script_path :: "string option action" where
  "bss_script_path s =
     bnd (read_local (priv_bss_script_path s)) (\<lambda>local_bss_script.
     bnd configmap_name (\<lambda>name.
     bnd (read_namespaced_config_map (opt_str name) ''services'') (\<lambda>data.
       let upstream_bss_script = data ''bss.ipxe''
       in bnd (if local_bss_script \<noteq> upstream_bss_script
               then (\<lambda>s1.
                      bnd (case priv_bss_script_path s1 of
                             None \<Rightarrow> ret ()
                           | Some path \<Rightarrow> if path = [] then ret () else unlink path)
                      (\<lambda>_. bnd (write_temp (opt_val upstream_bss_script))
                        (\<lambda>ntf_name s2.
                           (Inr (), s2\<lparr>priv_bss_script_path := Some ntf_name,
                                       recreation_necessary := True\<rparr>)))
                      s1)
               else ret ())
          (\<lambda>_ s3. (Inr (priv_bss_script_path s3), s3))))) s"

definition debug_script_path :: "env \<Rightarrow> string option action" where
  "debug_script_path E s =
     bnd (read_local (priv_debug_script_path s)) (\<lambda>local_debug_script.
     bnd (read_namespaced_config_map ''cray-ipxe-shell-ipxe'' ''services'') (\<lambda>data.
     bnd (case data ''shell.ipxe'' of
            None \<Rightarrow> raise AttributeError
          | Some txt \<Rightarrow> lift (safe_load E txt)) (\<lambda>upstream_debug_script.
     bnd (if \<not> py_eq (opt_val local_debug_script) upstream_debug_script
          then (\<lambda>s1.
                 bnd (case priv_debug_script_path s1 of
                        None \<Rightarrow> ret ()
                      | Some path \<Rightarrow> if path = [] then ret () else unlink path)
                 (\<lambda>_. bnd (write_temp upstream_debug_script)
                   (\<lambda>ntf_name s2.
                      (Inr (), s2\<lparr>priv_debug_script_path := Some ntf_name,
                                  recreation_necessary := True\<rparr>)))
                 s1)
          else ret ())
     (\<lambda>_ s3. (Inr (priv_debug_script_path s3), s3))))) s"

definition arch_build_dir :: "string action" where
  "arch_build_dir s =
     (case priv_arch_build_dir s of
        Some d \<Rightarrow>
          if d \<noteq> [] then (Inr d, s)
          else (let d' = ''bin-'' @ opt_str (ARCH (klass s)) @ ''-efi''
                in (Inr d', s\<lparr>priv_arch_build_dir := Some d'\<rparr>))
      | None \<Rightarrow>
          (let d' = ''bin-'' @ opt_str (ARCH (klass s)) @ ''-efi''
           in (Inr d', s\<lparr>priv_arch_build_dir := Some d'\<rparr>)))"

subsection \<open>The bearer token\<close>

text \<open>
  \<open>fetch_token\<close> (tokens.py): a credential file that cannot be opened gives \<open>None\<close>; so does
  a token object that is empty or has no \<open>access_token\<close>.  What the session raises
  propagates.
\<close>

definition readline :: "string \<Rightarrow> string" where
  "readline c = takeWhile (\<lambda>x. x \<noteq> CHR 0x0A) (universal_newlines c)"

definition fetch_token :: "env \<Rightarrow> scalar \<Rightarrow> string option action" where
  "fetch_token E token_host s =
     (let token_url = ''https://'' @ py_str token_host @
                      ''/keycloak/realms/shasta/protocol/openid-connect/token''
      in case files s ''/client_auth/client-id'' of
           None \<Rightarrow> (Inr None, s)
         | Some f1 \<Rightarrow>
             (let oauth_client_id = rstrip (readline f1)
              in case files s ''/client_auth/client-secret'' of
                   None \<Rightarrow> (Inr None, s)
                 | Some f2 \<Rightarrow>
                     (let oauth_client_secret = rstrip (readline f2)
                      in bnd (emit (FetchToken token_url)) (\<lambda>_.
                         bnd (lift (keycloak E token_url oauth_client_id oauth_client_secret))
                           (\<lambda>token.
                              if token \<noteq> [] then ret (map_of token ''access_token'')
                              else ret None)) s)))"

text \<open>
  \<open>bearer_token\<close>: a token that is missing or expires soon is fetched again, the source
  file that embeds it is touched, and a rebuild is flagged.
\<close>

definition utime :: "string \<Rightarrow> unit action" where
  "utime path s =
     (if files s path = None then (Inl FileNotFoundError, s)
      else emit (UTime path) s)"

definition bearer_token :: "env \<Rightarrow> string option action" where
  "bearer_token E s =
     bnd (token_min_remaining_valid_time E) (\<lambda>mrv.
     bnd (\<lambda>s1. (token_expiring_soon (jwt_decode E) (time_time s1) (priv_bearer_token s) mrv, s1))
       (\<lambda>soon.
     bnd (if soon
          then bnd (cray_ipxe_token_host E) (\<lambda>host.
               bnd (fetch_token E host) (\<lambda>tok.
               bnd (\<lambda>s2. (Inr (), s2\<lparr>priv_bearer_token := tok\<rparr>)) (\<lambda>_.
               bnd (utime (IPXE_BUILD_DIR @ ''/net/tcp/httpcore.c'')) (\<lambda>_ s3.
                 (Inr (), s3\<lparr>recreation_necessary := True\<rparr>)))))
          else ret ())
     (\<lambda>_ s4. (Inr (priv_bearer_token s4), s4)))) s"

subsection \<open>The build commands\<close>

definition build_options :: string where
  "build_options = ''httpcore,x509,efi_time''"

definition build_debug_options :: string where
  "build_debug_options = ''httpcore:2,x509:2,efi_time''"

text \<open>\<open>os.path.basename\<close> of a path that may be \<open>None\<close>.\<close>

definition basename_opt :: "string option \<Rightarrow> string action" where
  "basename_opt p = (case p of None \<Rightarrow> raise TypeError | Some q \<Rightarrow> ret (basename q))"

text \<open>The part shared by the two commands: the certificate arguments.\<close>

definition cert_args :: "env \<Rightarrow> string list action" where
  "cert_args E =
     bnd (build_with_certs E) (\<lambda>bwc.
       if scalar_truthy bwc
       then bnd cert_path (\<lambda>cp.
            bnd (basename_opt cp) (\<lambda>cert_path_filename.
              ret [''CERT='' @ cert_path_filename, ''TRUST='' @ cert_path_filename]))
       else ret [])"

definition s3_args :: "env \<Rightarrow> string list action" where
  "s3_args E =
     bnd (s3_host E) (\<lambda>h.
       if opt_truthy h then ret [''S3_HOST='' @ opt_str h] else ret [])"

definition build_command :: "env \<Rightarrow> string list action" where
  "build_command E s =
     bnd arch_build_dir (\<lambda>abd.
     bnd (cert_args E) (\<lambda>certs.
     bnd bss_script_path (\<lambda>bsp.
     bnd (basename_opt bsp) (\<lambda>embed.
     bnd (s3_args E) (\<lambda>s3.
     bnd (bearer_token E) (\<lambda>tok.
       ret ([''make'', abd @ ''/ipxe.efi''] @ MAKE_ADDENDUM (klass s) @
            [''DEBUG='' @ build_options] @ certs @ [''EMBED='' @ embed] @ s3 @
            [''BEARER_TOKEN='' @ opt_str tok]))))))) s"

definition debug_command :: "env \<Rightarrow> string list action" where
  "debug_command E s =
     bnd arch_build_dir (\<lambda>abd.
     bnd (cert_args E) (\<lambda>certs.
     bnd (debug_script_path E) (\<lambda>dsp.
     bnd (basename_opt dsp) (\<lambda>embed.
     bnd (s3_args E) (\<lambda>s3.
     bnd (bearer_token E) (\<lambda>tok.
       ret ([''make'', abd @ ''/ipxe.efi''] @ MAKE_ADDENDUM (klass s) @
            [''DEBUG='' @ build_debug_options] @ certs @ [''EMBED='' @ embed] @ s3 @
            [''BEARER_TOKEN='' @ opt_str tok]))))))) s"

subsection \<open>Building, publishing and the build cycle\<close>

definition built_binary_abs_path :: "string action" where
  "built_binary_abs_path =
     bnd arch_build_dir (\<lambda>abd. ret (path_join (path_join IPXE_BUILD_DIR abd) ''ipxe.efi''))"

text \<open>\<open>os.path.join\<close> with a name that is not a string raises \<open>TypeError\<close>.\<close>

definition join_name :: "string \<Rightarrow> scalar \<Rightarrow> string action" where
  "join_name dir n = (case n of SStr t \<Rightarrow> ret (path_join dir t) | _ \<Rightarrow> raise TypeError)"

definition destination_abs_path :: "env \<Rightarrow> string action" where
  "destination_abs_path E = bnd (binary_name E) (join_name PUBLISHING_DIR)"

definition debug_destination_abs_path :: "env \<Rightarrow> string action" where
  "debug_destination_abs_path E = bnd (debug_binary_name E) (join_name PUBLISHING_DIR)"

text \<open>The names of the levels of the \<open>logging\<close> module, and \<open>Logger.setLevel\<close>.\<close>

definition level_names :: "(string \<times> int) list" where
  "level_names =
     [(''CRITICAL'', 50), (''FATAL'', 50), (''ERROR'', 40), (''WARN'', 30), (''WARNING'', 30),
      (''INFO'', 20), (''DEBUG'', 10), (''NOTSET'', 0)]"

fun checkLevel :: "scalar \<Rightarrow> pyerr + int" where
  "checkLevel SNone = Inl TypeError"
| "checkLevel (SBool b) = Inr (if b then 1 else 0)"
| "checkLevel (SInt i) = Inr i"
| "checkLevel (SStr n) = (case map_of level_names n of None \<Rightarrow> Inl ValueError | Some l \<Rightarrow> Inr l)"

definition set_log_level :: "env \<Rightarrow> unit action" where
  "set_log_level E =
     bnd (global_settings E) (\<lambda>gs.
     bnd (lift (py_get gs (Some ''cray_ipxe_build_service_log_level'') (SStr ''DEBUG'')))
       (\<lambda>cray_ipxe_build_debug s.
          case checkLevel cray_ipxe_build_debug of
            Inl e \<Rightarrow> if e = ValueError then (Inr (), s\<lparr>root_level := 10\<rparr>) else (Inl e, s)
          | Inr l \<Rightarrow> (Inr (), s\<lparr>root_level := l\<rparr>)))"

text \<open>\<open>subprocess.check_call\<close>: a non-zero exit status raises \<open>CalledProcessError\<close>.\<close>

definition build_binary :: "env \<Rightarrow> string \<Rightarrow> string \<Rightarrow> bool \<Rightarrow> unit action" where
  "build_binary E command environment debug =
     bnd (emit (CheckCall command environment)) (\<lambda>_ s.
       case toolchain E command environment (files s) of
         None \<Rightarrow> (Inl CalledProcessError, s)
       | Some fs \<Rightarrow> (Inr (), s\<lparr>files := fs\<rparr>))"

text \<open>\<open>shutil.move\<close> of a file onto a path, overwriting what is there.\<close>

definition move :: "string \<Rightarrow> string \<Rightarrow> unit action" where
  "move src dst s =
     (case files s src of
        None \<Rightarrow> (Inl FileNotFoundError, s)
      | Some c \<Rightarrow>
          (Inr (), s\<lparr>files := ((files s)(src := None))(dst \<mapsto> c),
                      trace := trace s @ [Move src dst]\<rparr>))"

definition publish_binary :: "env \<Rightarrow> unit action" where
  "publish_binary E =
     bnd built_binary_abs_path (\<lambda>src. bnd (destination_abs_path E) (\<lambda>dst. move src dst))"

definition publish_debug :: "env \<Rightarrow> unit action" where
  "publish_debug E =
     bnd built_binary_abs_path (\<lambda>src. bnd (debug_destination_abs_path E) (\<lambda>dst. move src dst))"

text \<open>\<open>self.liveness_probe.refresh_build()\<close>, on the record at \<open>LIVENESS_PATH\<close>.\<close>

definition liveness_probe_refresh_build :: "unit action" where
  "liveness_probe_refresh_build s =
     (Inr (), s\<lparr>timestamps := refresh_build (timestamps s) LIVENESS_PATH (clock s),
                 trace := trace s @ [RefreshBuild]\<rparr>)"

text \<open>
  The heartbeat thread runs \<open>liveliness_heartbeat\<close> on the record at \<open>LIVENESS_PATH\<close>.
  \<open>Thread.start\<close> raises \<open>RuntimeError\<close> for a thread that was started before.  When
  there is no record the thread ends at once with \<open>ipxeTimestampNoEnt\<close>, which does
  not reach the builder.  The rounds of the thread run beside the builder; the model
  places them on its own clock: the first when the thread starts, then one every ten
  seconds, and the clock of the model advances only while the builder sleeps.
\<close>

definition HEARTBEAT_PERIOD :: timedelta where
  "HEARTBEAT_PERIOD = 10000000"

definition heartbeat_start :: "unit action" where
  "heartbeat_start s =
     (if heartbeat_started s then (Inl RuntimeError, s)
      else
        case liveliness_heartbeat (timestamps s) LIVENESS_PATH [(True, clock s)] of
          Inl e \<Rightarrow> (Inr (), s\<lparr>heartbeat_started := True\<rparr>)
        | Inr fs \<Rightarrow>
            (Inr (), s\<lparr>heartbeat_started := True,
                        heartbeat_next := Some (clock s + HEARTBEAT_PERIOD),
                        timestamps := fs\<rparr>))"

text \<open>The times of the rounds that are due from \<open>next\<close> up to \<open>now\<close>.\<close>

definition heartbeat_due :: "datetime \<Rightarrow> datetime \<Rightarrow> datetime list" where
  "heartbeat_due next now =
     (if now < next then []
      else map (\<lambda>k. next + int k * HEARTBEAT_PERIOD)
               [0 ..< Suc (nat ((now - next) div HEARTBEAT_PERIOD))])"

definition heartbeat_catch_up :: "state \<Rightarrow> state" where
  "heartbeat_catch_up s =
     (case heartbeat_next s of
        None \<Rightarrow> s
      | Some next \<Rightarrow>
          (let due = heartbeat_due next (clock s)
           in s\<lparr>timestamps :=
                  heartbeat_rounds (timestamps s) LIVENESS_PATH (map (Pair True) due),
                heartbeat_next := Some (next + int (length due) * HEARTBEAT_PERIOD)\<rparr>))"

text \<open>\<open>time.sleep\<close> in the builder: time passes, and the heartbeat makes its rounds.\<close>

definition sleep :: "int \<Rightarrow> unit action" where
  "sleep seconds s =
     (Inr (),
      heartbeat_catch_up
        (s\<lparr>clock := clock s + seconds * 1000000, trace := trace s @ [Sleep seconds]\<rparr>))"

text \<open>\<open>a, b = xs\<close>: the list must have exactly two elements.\<close>

definition unpack2 :: "'a list \<Rightarrow> pyerr + 'a \<times> 'a" where
  "unpack2 xs = (case xs of [a, b] \<Rightarrow> Inr (a, b) | _ \<Rightarrow> Inl ValueError)"

text \<open>
  One pass through the body of the loop of \<open>__call__\<close>.  The result tells how the pass
  ended: at the first \<open>continue\<close> (the builder is disabled), at the second (no rebuild
  is necessary), or at the end of the body.
\<close>

datatype pass = Disabled | Unchanged | Built

definition build_and_publish ::
  "env \<Rightarrow> string \<Rightarrow> string \<Rightarrow> string \<Rightarrow> string \<Rightarrow> pass action" where
  "build_and_publish E build_cmd build_environment debug_cmd debug_environment =
     bnd (build_binary E build_cmd build_environment False) (\<lambda>_.
     bnd (publish_binary E) (\<lambda>_.
     bnd liveness_probe_refresh_build (\<lambda>_.
     bnd (build_binary E debug_cmd debug_environment True) (\<lambda>_.
     bnd (publish_debug E) (\<lambda>_.
     bnd liveness_probe_refresh_build (\<lambda>_ s.
       (Inr Built, s\<lparr>recreation_necessary := False\<rparr>)))))))"

text \<open>
  The body after the check of the enabled flag: both commands are generated, which
  evaluates the artifacts they embed, and the build follows when the flag is set.
\<close>

definition rebuild_if_necessary :: "env \<Rightarrow> pass action" where
  "rebuild_if_necessary E =
     bnd (build_command E) (\<lambda>bc.
     bnd (lift (unpack2 bc)) (\<lambda>(build_cmd, build_environment).
     bnd (debug_command E) (\<lambda>dc.
     bnd (lift (unpack2 dc)) (\<lambda>(debug_cmd, debug_environment) s.
       if \<not> recreation_necessary s then (Inr Unchanged, s)
       else build_and_publish E build_cmd build_environment
                              debug_cmd debug_environment s))))"

definition cycle :: "env \<Rightarrow> bool \<Rightarrow> pass action" where
  "cycle E first_time =
     bnd (set_log_level E) (\<lambda>_.
     bnd (if \<not> first_time then sleep TIME_BETWEEN_BUILDCHECKS else ret ()) (\<lambda>_.
     bnd (enabled E) (\<lambda>en.
       if \<not> scalar_truthy en then ret Disabled
       else rebuild_if_necessary E)))"

text \<open>
  The loop of \<open>__call__\<close> never ends by itself; \<open>run\<close> makes at most \<open>n\<close> passes and stops
  at the first exception.
\<close>

fun run :: "env \<Rightarrow> nat \<Rightarrow> bool \<Rightarrow> state \<Rightarrow> pyerr option \<times> state" where
  "run E 0 first_time s = (None, s)"
| "run E (Suc n) first_time s =
     (case cycle E first_time s of
        (Inl e, s') \<Rightarrow> (Some e, s')
      | (Inr p, s') \<Rightarrow> run E n False s')"

text \<open>
  \<open>__call__\<close>: the heartbeat thread is started, then the loop runs (the change of the
  working directory before it is not modelled).
\<close>

definition call :: "env \<Rightarrow> nat \<Rightarrow> state \<Rightarrow> pyerr option \<times> state" where
  "call E n s =
     (case heartbeat_start s of
        (Inl e, s') \<Rightarrow> (Some e, s')
      | (Inr u, s') \<Rightarrow> run E n True s')"

text \<open>
  \<open>BinaryBuilder.__init__\<close>: the attributes of a new instance, the new timestamp record
  (the time limit is 40 seconds unless the environment overrides it) and the heartbeat
  thread, not started yet.  When the record cannot be created there is no instance.
\<close>

definition builder_init :: "cls \<Rightarrow> real \<Rightarrow> state \<Rightarrow> pyerr + state" where
  "builder_init c time_limit w =
     bind_err (ipxeTimestamp_init (timestamps w) LIVENESS_PATH time_limit None (clock w))
       (\<lambda>ts. Inr (w\<lparr>klass := c,
                      priv_global_settings := Atom SNone,
                      priv_global_settings_timestamp := None,
                      priv_configmap_name := None,
                      priv_bss_script_path := None,
                      priv_debug_script_path := None,
                      priv_bearer_token := None,
                      priv_cert_path := None,
                      priv_arch_build_dir := None,
                      timestamps := ts,
                      heartbeat_started := False,
                      heartbeat_next := None,
                      recreation_necessary := True\<rparr>))"

section \<open>Concrete inputs\<close>

text \<open>
  Three records: one created at time 0 with a limit of 40 seconds and a build at 40
  seconds; the same one as \<open>__init__\<close> leaves it, with no build; and one touched at
  100 seconds with a limit of 25 seconds and a build at 110 seconds.
\<close>

definition demo_tsfs :: tsfs where
  "demo_tsfs =
     [LIVENESS_PATH \<mapsto>
        [''timestamp'' \<mapsto> Some 0, ''max_age'' \<mapsto> Some 40, ''last_build'' \<mapsto> Some 40]]"

definition fresh_tsfs :: tsfs where
  "fresh_tsfs =
     [LIVENESS_PATH \<mapsto>
        [''timestamp'' \<mapsto> Some 0, ''max_age'' \<mapsto> Some 40, ''last_build'' \<mapsto> None]]"

definition late_tsfs :: tsfs where
  "late_tsfs =
     [LIVENESS_PATH \<mapsto>
        [''timestamp'' \<mapsto> Some 100, ''max_age'' \<mapsto> Some 25, ''last_build'' \<mapsto> Some 110]]"

text \<open>A decoder that knows two tokens, which expire at second 2000 and at second 5000.\<close>

definition demo_jwt_decode :: "string \<Rightarrow> (string \<rightharpoonup> int) option" where
  "demo_jwt_decode t =
     (if t = ''jwt'' then Some [''exp'' \<mapsto> 2000]
      else if t = ''long'' then Some [''exp'' \<mapsto> 5000]
      else None)"

text \<open>
  A settings document that enables the x86 builder and names its two binaries.
\<close>

definition build_settings :: string where
  "build_settings =
     ''cray_ipxe_build_x86: true'' @ [CHR 0x0A] @
     ''cray_ipxe_binary_name: ipxe.efi'' @ [CHR 0x0A] @
     ''cray_ipxe_debug_binary_name: debug-ipxe.efi''"

text \<open>
  A parser that knows three settings documents, and takes any other text for a plain
  scalar; a token endpoint that always answers; no S3 host name; a toolchain that always
  succeeds and leaves the files as they are.
\<close>

definition demo_env :: env where
  "demo_env =
     \<lparr>safe_load = (\<lambda>txt.
        if txt = ''cray_ipxe_build_x86: true''
        then Inr (Dict [(''cray_ipxe_build_x86'', SBool True)])
        else if txt = ''cray_ipxe_build_x86: false''
        then Inr (Dict [(''cray_ipxe_build_x86'', SBool False)])
        else if txt = build_settings
        then Inr (Dict [(''cray_ipxe_build_x86'', SBool True),
                        (''cray_ipxe_binary_name'', SStr ''ipxe.efi''),
                        (''cray_ipxe_debug_binary_name'', SStr ''debug-ipxe.efi'')])
        else Inr (Atom (SStr txt))),
      jwt_decode = demo_jwt_decode,
      keycloak = (\<lambda>url client_id client_secret. Inr [(''access_token'', ''jwt'')]),
      urlparse_hostname = (\<lambda>ep. None),
      toolchain = (\<lambda>command environment fs. Some fs)\<rparr>"


text \<open>A world with no config maps and no files, at second 1000.\<close>

definition world0 :: state where
  "world0 =
     \<lparr>klass = BinaryBuilder,
      priv_global_settings = Atom SNone,
      priv_global_settings_timestamp = None,
      priv_configmap_name = None,
      priv_bss_script_path = None,
      priv_debug_script_path = None,
      priv_bearer_token = None,
      priv_cert_path = None,
      priv_arch_build_dir = None,
      recreation_necessary = False,
      heartbeat_started = False,
      heartbeat_next = None,
      cluster = Map.empty,
      files = Map.empty,
      timestamps = Map.empty,
      clock = 1000000000,
      tmp_counter = 0,
      root_level = 20,
      trace = []\<rparr>"

text \<open>The record that a builder made at second 1000 writes.\<close>

definition new_tsfs :: tsfs where
  "new_tsfs =
     [LIVENESS_PATH \<mapsto>
        [''timestamp'' \<mapsto> Some 1000, ''max_age'' \<mapsto> Some 40, ''last_build'' \<mapsto> None]]"

text \<open>A new arm64 builder in that world.\<close>

definition arm64_state :: state where
  "arm64_state =
     world0\<lparr>klass := Arm64builder, timestamps := new_tsfs, recreation_necessary := True\<rparr>"

text \<open>The number of config-map reads among some events.\<close>

fun is_read :: "event \<Rightarrow> bool" where
  "is_read (ReadConfigMap name namespace) = True"
| "is_read ev = False"

definition config_reads :: "event list \<Rightarrow> nat" where
  "config_reads evs = length (filter is_read evs)"

text \<open>The config maps of a cluster whose x86 builder is disabled.\<close>

definition demo_cluster :: "string \<times> string \<rightharpoonup> (string \<rightharpoonup> string)" where
  "demo_cluster =
     [(''cray-ipxe-settings'', ''services'') \<mapsto>
        [''settings.yaml'' \<mapsto> ''cray_ipxe_build_x86: false''],
      (''cray-configmap-ca-public-key'', ''services'') \<mapsto>
        [''certificate_authority.crt'' \<mapsto> ''CERT''],
      (''cray-ipxe-bss-ipxe'', ''services'') \<mapsto> [''bss.ipxe'' \<mapsto> ''chain bss''],
      (''cray-ipxe-shell-ipxe'', ''services'') \<mapsto> [''shell.ipxe'' \<mapsto> ''shell'']]"

text \<open>A new x86 builder in that cluster, and the same builder once \<open>__call__\<close> has
  started its heartbeat.\<close>

definition demo_state :: state where
  "demo_state =
     world0\<lparr>klass := X86Builder, cluster := demo_cluster, timestamps := new_tsfs,
            recreation_necessary := True\<rparr>"

definition demo_started :: state where
  "demo_started =
     demo_state\<lparr>heartbeat_started := True, heartbeat_next := Some 1010000000\<rparr>"

text \<open>
  The client credentials and the source file that embeds the token.
\<close>

definition demo_files :: "string \<rightharpoonup> string" where
  "demo_files =
     [''/client_auth/client-id'' \<mapsto> ''id'',
      ''/client_auth/client-secret'' \<mapsto> ''secret'',
      ''/ipxe/net/tcp/httpcore.c'' \<mapsto> ''source'']"





text \<open>
  A new x86 builder in a cluster where it is enabled, with the client credentials and the
  source file that embeds the token in place; and the same with settings that name the
  binaries.
\<close>

definition enabled_state :: state where
  "enabled_state =
     demo_state
       \<lparr>cluster := demo_cluster
          ((''cray-ipxe-settings'', ''services'') \<mapsto>
             [''settings.yaml'' \<mapsto> ''cray_ipxe_build_x86: true'']),
        files := demo_files\<rparr>"




definition debug_cmd :: string where
  "debug_cmd = ''make bin-x86_64-efi/ipxe.efi DEBUG=httpcore:2,x509:2,efi_time''"

text \<open>
  The events of a build: a run of the toolchain, a refresh of the build-completion
  marker, a move of a binary.  A step from one state to another is quiet when it adds
  no such event and does not clear the rebuild flag; an action is quiet when every step
  it makes is.
\<close>

fun is_build_event :: "event \<Rightarrow> bool" where
  "is_build_event (CheckCall command environment) = True"
| "is_build_event RefreshBuild = True"
| "is_build_event (Move src dst) = True"
| "is_build_event ev = False"

definition quiet_step :: "state \<Rightarrow> state \<Rightarrow> bool" where
  "quiet_step s s' =
     ((\<exists>evs. trace s' = trace s @ evs \<and> list_all (\<lambda>ev. \<not> is_build_event ev) evs) \<and>
      (recreation_necessary s \<longrightarrow> recreation_necessary s'))"

definition quiet :: "'a action \<Rightarrow> bool" where
  "quiet m = (\<forall>s. quiet_step s (snd (m s)))"


section \<open>Verified properties\<close>

subsection \<open>The timestamp record\<close>




lemma fromtimestamp_Inr_iff:
  "fromtimestamp t = Inr a \<longleftrightarrow>
   a = round_half_even (t * 1000000) \<and> datetime_min \<le> a \<and> a \<le> datetime_max"
  by (auto simp: fromtimestamp_def Let_def)


lemma datetime_add_Inr: "datetime_add a md = Inr e \<Longrightarrow> e = a + md"
  by (auto simp: datetime_add_def split: if_splits)

text \<open>What the accessors read from a record, field by field.\<close>

lemma value_get_field:
  "fs p = Some d \<Longrightarrow> d ''timestamp'' = Some (Some t) \<Longrightarrow>
   value_get fs p = bind_err (fromtimestamp t) (\<lambda>a. Inr (Some a))"
  by (simp add: value_get_def data_get_def getitem_def py_float_def bind_err_def)

lemma max_delta_field:
  "fs p = Some d \<Longrightarrow> d ''max_age'' = Some (Some m) \<Longrightarrow>
   max_delta fs p = timedelta_seconds m"
  by (simp add: max_delta_def max_age_def data_get_def getitem_def py_float_def bind_err_def)

lemma last_build_get_field:
  "fs p = Some d \<Longrightarrow>
   last_build_get fs p =
     (case d ''last_build'' of
        Some (Some l) \<Rightarrow> bind_err (fromtimestamp l) (\<lambda>b. Inr (Some b))
      | _ \<Rightarrow> Inr None)"
  by (simp add: last_build_get_def data_get_def getitem_def py_float_def bind_err_def
      split: option.splits)

lemma expired_field:
  assumes "fs p = Some d"
      and "d ''timestamp'' = Some (Some t)" and "d ''max_age'' = Some (Some m)"
      and "fromtimestamp t = Inr a" and "timedelta_seconds m = Inr md"
      and "datetime_add a md = Inr e"
  shows "expired fs p now = Inr (now - a > md)"
  using assms datetime_add_Inr [OF assms(6)]
  by (auto simp: expired_def expiration_date_def value_get_field max_delta_field bind_err_def)

lemma recent_build_field:
  assumes "fs p = Some d" and "d ''max_age'' = Some (Some m)"
      and "timedelta_seconds m = Inr md"
  shows "recent_build fs p now =
           (case d ''last_build'' of
              Some (Some l) \<Rightarrow> bind_err (fromtimestamp l) (\<lambda>b. Inr (now - b < md))
            | _ \<Rightarrow> Inr False)"
  using assms
  by (auto simp: recent_build_def last_build_age_def last_build_get_field max_delta_field
      bind_err_def split: option.splits sum.splits)



lemma in_range:
  "fromtimestamp 0 = Inr 0"
  "fromtimestamp 40 = Inr 40000000"
  "fromtimestamp 100 = Inr 100000000"
  "fromtimestamp 110 = Inr 110000000"
  "timedelta_seconds 40 = Inr 40000000"
  "timedelta_seconds 25 = Inr 25000000"
  "datetime_add 0 40000000 = Inr 40000000"
  "datetime_add 100000000 25000000 = Inr 125000000"
  by (simp_all add: fromtimestamp_def timedelta_seconds_def datetime_add_def
      round_half_even_def datetime_min_def datetime_max_def timedelta_min_def
      timedelta_max_def)

lemma demo_fields:
  "demo_tsfs LIVENESS_PATH =
     Some [''timestamp'' \<mapsto> Some 0, ''max_age'' \<mapsto> Some 40, ''last_build'' \<mapsto> Some 40]"
  "fresh_tsfs LIVENESS_PATH =
     Some [''timestamp'' \<mapsto> Some 0, ''max_age'' \<mapsto> Some 40, ''last_build'' \<mapsto> None]"
  "late_tsfs LIVENESS_PATH =
     Some [''timestamp'' \<mapsto> Some 100, ''max_age'' \<mapsto> Some 25, ''last_build'' \<mapsto> Some 110]"
  by (simp_all add: demo_tsfs_def fresh_tsfs_def late_tsfs_def)

lemma fresh_tsfs_init: "ipxeTimestamp_init fs LIVENESS_PATH 40 None 0 = Inr (fs ++ fresh_tsfs)"
  by (simp add: ipxeTimestamp_init_def fresh_tsfs_def dirname_def LIVENESS_PATH_def
      timestamp_of_def)




text \<open>
  A record whose numbers leave the range of \<open>datetime\<close> gives no verdict: with a
  maximum age of \<open>10\<^sup>1\<^sup>2\<close> seconds the expiration date lies past the year 9999 and
  \<open>expired\<close> raises \<open>OverflowError\<close>; with a touched time of \<open>10\<^sup>1\<^sup>2\<close> seconds \<open>value\<close>
  raises \<open>ValueError\<close>.
\<close>

lemma out_of_range_raises:
  "expired [LIVENESS_PATH \<mapsto> [''timestamp'' \<mapsto> Some 0, ''max_age'' \<mapsto> Some 1000000000000,
                               ''last_build'' \<mapsto> None]] LIVENESS_PATH now = Inl OverflowError"
  "value_get [LIVENESS_PATH \<mapsto> [''timestamp'' \<mapsto> Some 1000000000000, ''max_age'' \<mapsto> Some 40,
                                 ''last_build'' \<mapsto> None]] LIVENESS_PATH = Inl ValueError"
  by (simp_all add: expired_def expiration_date_def value_get_def max_delta_def max_age_def
      data_get_def getitem_def py_float_def bind_err_def fromtimestamp_def
      timedelta_seconds_def datetime_add_def round_half_even_def datetime_min_def
      datetime_max_def timedelta_min_def timedelta_max_def time_t_max_def)

text \<open>
  C10.  A handle obtained by \<open>byref\<close> whose file is absent when it is read: the data read
  has all three fields \<open>None\<close>, and \<open>value\<close>, \<open>expired\<close> and \<open>alive\<close> raise \<open>TypeError\<close>
  instead of giving a verdict.
\<close>

theorem absent_file_raises:
  assumes "byref fs0 p = Inr h" and "fs h = None"
  shows "data_get fs h = [''timestamp'' \<mapsto> None, ''max_age'' \<mapsto> None, ''last_build'' \<mapsto> None] \<and>
         value_get fs h = Inl TypeError \<and>
         expired fs h now = Inl TypeError \<and>
         alive fs h now = Inl TypeError"
  using assms
  by (simp add: data_get_def value_get_def getitem_def py_float_def expired_def
      expiration_date_def alive_def bind_err_def)

lemma fresh_exists: "fresh_tsfs LIVENESS_PATH \<noteq> None"
  by (simp add: fresh_tsfs_def)

lemma byref_fresh: "byref fresh_tsfs LIVENESS_PATH = Inr LIVENESS_PATH"
  by (simp add: byref_def fresh_tsfs_def)

theorem absent_file_raises_witness:
  "byref fresh_tsfs LIVENESS_PATH = Inr LIVENESS_PATH \<and>
   delete fresh_tsfs LIVENESS_PATH = Inr (fresh_tsfs(LIVENESS_PATH := None)) \<and>
   value_get (fresh_tsfs(LIVENESS_PATH := None)) LIVENESS_PATH = Inl TypeError \<and>
   expired (fresh_tsfs(LIVENESS_PATH := None)) LIVENESS_PATH 1000000 = Inl TypeError \<and>
   alive (fresh_tsfs(LIVENESS_PATH := None)) LIVENESS_PATH 1000000 = Inl TypeError"
  using absent_file_raises [of fresh_tsfs LIVENESS_PATH LIVENESS_PATH
          "fresh_tsfs(LIVENESS_PATH := None)" 1000000] byref_fresh
  by (simp add: delete_def fresh_exists)

text \<open>
  C8.  The probe exits with status 0 exactly when a record exists at the fixed path and
  is alive.  It exits with status 1 when the record exists and is not alive, and when no
  record exists; the warning logged differs between the two.  No other status occurs.
\<close>

theorem liveness_probe_exit_status:
  "(exit_status (liveness_main fs now) = 0 \<longleftrightarrow>
      fs LIVENESS_PATH \<noteq> None \<and> alive fs LIVENESS_PATH now = Inr True) \<and>
   (fs LIVENESS_PATH \<noteq> None \<and> alive fs LIVENESS_PATH now = Inr False \<longrightarrow>
      liveness_main fs now = SysExit 1 [''Timestamp %s has expired'']) \<and>
   (fs LIVENESS_PATH = None \<longrightarrow>
      liveness_main fs now =
        SysExit 1 [''No timestamp information has been made available yet.'']) \<and>
   (exit_status (liveness_main fs now) \<noteq> 0 \<longrightarrow> exit_status (liveness_main fs now) = 1)"
  by (auto simp: liveness_main_def byref_def split: sum.splits if_splits)

lemma fresh_alive: "alive fresh_tsfs LIVENESS_PATH 39000000 = Inr True"
  "alive fresh_tsfs LIVENESS_PATH 41000000 = Inr False"
  by (simp_all add: alive_def bind_err_def demo_fields in_range
      expired_field [of fresh_tsfs LIVENESS_PATH _ 0 40 0 40000000 40000000]
      recent_build_field [of fresh_tsfs LIVENESS_PATH _ 40 40000000])

theorem liveness_probe_exit_status_witness:
  "exit_status (liveness_main fresh_tsfs 39000000) = 0 \<and>
   liveness_main fresh_tsfs 41000000 = SysExit 1 [''Timestamp %s has expired''] \<and>
   liveness_main Map.empty 41000000 =
     SysExit 1 [''No timestamp information has been made available yet.'']"
  using liveness_probe_exit_status [of fresh_tsfs 39000000]
        liveness_probe_exit_status [of fresh_tsfs 41000000]
        liveness_probe_exit_status [of Map.empty 41000000]
        fresh_alive fresh_exists
  by simp

text \<open>
  The heartbeat writes the touched time only: the maximum age and the last build of
  the record stay as they are.
\<close>

lemma refresh_keeps:
  "k \<noteq> ''timestamp'' \<Longrightarrow> data_get (refresh fs p now) p k = data_get fs p k"
  by (simp add: refresh_def value_set_def data_set_def data_get_def Let_def)

lemma heartbeat_rounds_keeps:
  "k \<noteq> ''timestamp'' \<Longrightarrow> data_get (heartbeat_rounds fs p rounds) p k = data_get fs p k"
  by (induction fs p rounds rule: heartbeat_rounds.induct) (simp_all add: refresh_keeps)

subsection \<open>Token expiry\<close>

lemma int_of_string_1800: "int_of_string ''1800'' = Inr 1800"
  by (simp add: int_of_string_def strip_def is_space_def parse_nat_def digit_value_def)

lemma int_of_string_500: "int_of_string ''500'' = Inr 500"
  by (simp add: int_of_string_def strip_def is_space_def parse_nat_def digit_value_def)

text \<open>
  C7.  For a token that decodes and has an \<open>exp\<close> claim: when \<open>exp\<close> is the current second
  plus 1000, \<open>token_expiring_soon\<close> is true for the string \<open>"1800"\<close> and false for the string
  \<open>"500"\<close>; in general, for a minimum remaining time that \<open>int\<close> accepts, it is true exactly
  when \<open>now >= exp - int(min_remaining_valid_time)\<close>, for the truncated clock reading and,
  after the epoch, for the clock reading itself.
\<close>

theorem token_expiring_soon_spec:
  assumes "decode tok = Some claims" and "claims ''exp'' = Some ex"
  shows "(ex = int_of_float now + 1000 \<longrightarrow>
            token_expiring_soon decode now (Some tok) (SStr ''1800'') = Inr True \<and>
            token_expiring_soon decode now (Some tok) (SStr ''500'') = Inr False) \<and>
         (\<forall>m. py_int mrv = Inr m \<longrightarrow>
            token_expiring_soon decode now (Some tok) mrv =
              Inr (int_of_float now \<ge> ex - m) \<and>
            (0 \<le> now \<longrightarrow>
               token_expiring_soon decode now (Some tok) mrv =
                 Inr (now \<ge> of_int (ex - m))))"
proof -
  have a: "token_expiring_soon decode now (Some tok) (SStr ''1800'') =
             Inr (int_of_float now \<ge> ex - 1800)"
    using assms by (simp add: token_expiring_soon_def bind_err_def int_of_string_1800)
  have b: "token_expiring_soon decode now (Some tok) (SStr ''500'') =
             Inr (int_of_float now \<ge> ex - 500)"
    using assms by (simp add: token_expiring_soon_def bind_err_def int_of_string_500)
  have c: "0 \<le> now \<Longrightarrow> (int_of_float now \<ge> k) = (now \<ge> of_int k)" for k
    by (simp add: int_of_float_def le_floor_iff)
  have d: "py_int mrv = Inr m \<Longrightarrow>
           token_expiring_soon decode now (Some tok) mrv = Inr (int_of_float now \<ge> ex - m)"
    for m
    using assms by (simp add: token_expiring_soon_def bind_err_def)
  show ?thesis
    using a b c d by auto
qed

lemma demo_jwt: "demo_jwt_decode ''jwt'' = Some [''exp'' \<mapsto> 2000]"
  "[''exp'' \<mapsto> (2000::int)] ''exp'' = Some 2000"
  by (simp_all add: demo_jwt_decode_def)

theorem token_expiring_soon_spec_witness:
  "demo_jwt_decode ''jwt'' = Some [''exp'' \<mapsto> 2000] \<and>
   token_expiring_soon demo_jwt_decode (2001 / 2) (Some ''jwt'') (SStr ''1800'') = Inr True \<and>
   token_expiring_soon demo_jwt_decode (2001 / 2) (Some ''jwt'') (SStr ''500'') = Inr False \<and>
   token_expiring_soon demo_jwt_decode 1500 (Some ''jwt'') (SInt 500) = Inr True \<and>
   token_expiring_soon demo_jwt_decode 1499 (Some ''jwt'') (SInt 500) = Inr False"
  using token_expiring_soon_spec
          [of demo_jwt_decode "''jwt''" "[''exp'' \<mapsto> 2000]" 2000 "2001 / 2" "SStr ''500''"]
        token_expiring_soon_spec
          [of demo_jwt_decode "''jwt''" "[''exp'' \<mapsto> 2000]" 2000 1500 "SInt 500"]
        token_expiring_soon_spec
          [of demo_jwt_decode "''jwt''" "[''exp'' \<mapsto> 2000]" 2000 1499 "SInt 500"]
  by (simp add: demo_jwt int_of_float_def)

subsection \<open>The name of the BSS config map\<close>

text \<open>
  C9.  For an \<open>Arm64builder\<close> whose cached name is unset or is the name the property itself
  stores, \<open>configmap_name\<close> is \<open>'cray-ipxe-bss-ipxe'\<close>, the name an \<open>X86Builder\<close> gets: the
  suffix branch tests \<open>ARCH == 'aarch64'\<close>, and no builder class has that \<open>ARCH\<close>.  The state
  left behind has the cached name again, so every later read gives the same name.
\<close>

theorem arm64_configmap_name:
  assumes "klass s = Arm64builder"
      and "priv_configmap_name s = None \<or> priv_configmap_name s = Some ''cray-ipxe-bss-ipxe''"
  shows "configmap_name s =
           (Inr (Some ''cray-ipxe-bss-ipxe''),
            s\<lparr>priv_configmap_name := Some ''cray-ipxe-bss-ipxe''\<rparr>) \<and>
         fst (configmap_name (s\<lparr>klass := X86Builder\<rparr>)) = fst (configmap_name s) \<and>
         (\<forall>c. ARCH c \<noteq> Some ''aarch64'')"
proof -
  have arch: "ARCH c \<noteq> Some ''aarch64''" for c
    by (cases c) simp_all
  have 1: "configmap_name s =
           (Inr (Some ''cray-ipxe-bss-ipxe''),
            s\<lparr>priv_configmap_name := Some ''cray-ipxe-bss-ipxe''\<rparr>)"
    using assms
    by (auto simp: configmap_name_def Arm64builder_configmap_name_def opt_truthy_def)
  have 2: "fst (configmap_name (s\<lparr>klass := X86Builder\<rparr>)) = Inr (Some ''cray-ipxe-bss-ipxe'')"
    using assms(2)
    by (auto simp: configmap_name_def X86Builder_configmap_name_def opt_truthy_def)
  show ?thesis using 1 2 arch by simp
qed

lemma arm64_state_init: "builder_init Arm64builder 40 world0 = Inr arm64_state"
  by (simp add: builder_init_def ipxeTimestamp_init_def bind_err_def dirname_def
      LIVENESS_PATH_def world0_def arm64_state_def new_tsfs_def timestamp_of_def)

theorem arm64_configmap_name_witness:
  "builder_init Arm64builder 40 world0 = Inr arm64_state \<and>
   klass arm64_state = Arm64builder \<and>
   priv_configmap_name arm64_state = None \<and>
   fst (configmap_name arm64_state) = Inr (Some ''cray-ipxe-bss-ipxe'') \<and>
   fst (configmap_name (snd (configmap_name arm64_state))) =
     Inr (Some ''cray-ipxe-bss-ipxe'') \<and>
   fst (configmap_name (arm64_state\<lparr>klass := X86Builder\<rparr>)) =
     Inr (Some ''cray-ipxe-bss-ipxe'')"
  using arm64_configmap_name [of arm64_state]
        arm64_configmap_name [of "snd (configmap_name arm64_state)"]
        arm64_state_init
  by (simp add: arm64_state_def world0_def)

subsection \<open>Tracked remote artifacts\<close>

lemma scalar_eq_refl: "scalar_eq a a"
  by (cases a) simp_all

lemma lookup_eq_refl: "lookup_eq x x"
  by (cases x) (simp_all add: lookup_eq_def scalar_eq_refl)

lemma py_eq_refl: "py_eq v v"
  by (cases v) (simp_all add: scalar_eq_refl lookup_eq_refl list_all_iff)

lemma global_settings_cached:
  assumes "truthy (priv_global_settings s)"
      and "priv_global_settings_timestamp s = Some t"
      and "time_time s - t \<le> CONFIGMAP_CACHE_TIMEOUT"
  shows "global_settings E s = (Inr (priv_global_settings s), s)"
  using assms by (simp add: global_settings_def bnd_def ret_def py_eq_refl)

lemma global_settings_fetch:
  assumes "global_settings E s0 = (Inr v, s1)"
      and "\<not> truthy (priv_global_settings s0) \<or>
           (\<exists>t0. priv_global_settings_timestamp s0 = Some t0 \<and> t0 \<noteq> 0 \<and>
                 time_time s0 - t0 > CONFIGMAP_CACHE_TIMEOUT)"
  shows "trace s1 = trace s0 @ [ReadConfigMap ''cray-ipxe-settings'' ''services''] \<and>
         priv_global_settings s1 = v \<and>
         priv_global_settings_timestamp s1 = Some (time_time s0) \<and>
         clock s1 = clock s0"
  using assms
  by (auto simp: global_settings_def bnd_def ret_def lift_def emit_def time_time_def
      read_namespaced_config_map_def Let_def
      split: option.splits sum.splits if_splits prod.splits)


lemma tmp_name_nonempty: "IPXE_BUILD_DIR @ ''/tmp'' @ show_nat n \<noteq> []"
  by (simp add: IPXE_BUILD_DIR_def)

lemma cert_path_unchanged:
  assumes "read_local (priv_cert_path s) s = (Inr (Some u), s)"
      and "cluster s (''cray-configmap-ca-public-key'', ''services'') = Some data"
      and "data ''certificate_authority.crt'' = Some u"
  shows "cert_path s =
           (Inr (priv_cert_path s),
            s\<lparr>trace := trace s @ [ReadConfigMap ''cray-configmap-ca-public-key'' ''services'']\<rparr>)"
  using assms
  by (auto simp: cert_path_def bnd_def ret_def lift_def emit_def getitem_def read_local_def
      read_file_def read_namespaced_config_map_def
      split: option.splits sum.splits if_splits prod.splits)

lemma cert_path_post:
  assumes "cert_path s0 = (Inr p, s1)"
      and "cluster s0 (''cray-configmap-ca-public-key'', ''services'') = Some data"
      and "data ''certificate_authority.crt'' = Some u"
      and "universal_newlines u = u"
  shows "p = priv_cert_path s1 \<and> cluster s1 = cluster s0 \<and>
         trace s1 = trace s0 @ [ReadConfigMap ''cray-configmap-ca-public-key'' ''services''] \<and>
         read_local (priv_cert_path s1) (s1\<lparr>recreation_necessary := f, clock := c\<rparr>) =
           (Inr (Some u), s1\<lparr>recreation_necessary := f, clock := c\<rparr>)"
  using assms tmp_name_nonempty [of "tmp_counter s0"]
  by (auto simp: cert_path_def bnd_def ret_def lift_def emit_def getitem_def read_local_def
      read_file_def read_namespaced_config_map_def write_temp_def unlink_def opt_truthy_def
      Let_def
      split: option.splits sum.splits if_splits prod.splits
      intro: exI sym)

lemma config_reads_append: "config_reads (xs @ ys) = config_reads xs + config_reads ys"
  by (simp add: config_reads_def)

text \<open>
  C2, as the code has it.  Global settings: when the first call fetched (the cache was
  empty or had expired) and returned settings that are not empty, a second call within
  the timeout of the first issues no fetch, so one in total, changes nothing at all and
  so leaves the rebuild flag as it finds it.  Certificate: there is no timeout; every
  call fetches, so two calls fetch twice; the second call leaves the flag as it finds it
  when the certificate reads back from its file as it was written (it has no carriage
  return).
\<close>

theorem twice_in_succession:
  "(global_settings E s0 = (Inr v, s1) \<and> truthy v \<and>
    (\<not> truthy (priv_global_settings s0) \<or>
       (\<exists>t0. priv_global_settings_timestamp s0 = Some t0 \<and> t0 \<noteq> 0 \<and>
             time_time s0 - t0 > CONFIGMAP_CACHE_TIMEOUT)) \<and>
    timestamp_of c - time_time s0 \<le> CONFIGMAP_CACHE_TIMEOUT
    \<longrightarrow>
      trace s1 = trace s0 @ [ReadConfigMap ''cray-ipxe-settings'' ''services''] \<and>
      global_settings E (s1\<lparr>clock := c, recreation_necessary := f\<rparr>) =
        (Inr v, s1\<lparr>clock := c, recreation_necessary := f\<rparr>) \<and>
      config_reads (trace (snd (global_settings E (s1\<lparr>clock := c, recreation_necessary := f\<rparr>))))
        = config_reads (trace s0) + 1) \<and>
   (cert_path s0 = (Inr p, s2) \<and>
    cluster s0 (''cray-configmap-ca-public-key'', ''services'') = Some data \<and>
    data ''certificate_authority.crt'' = Some u \<and>
    universal_newlines u = u
    \<longrightarrow>
      trace s2 = trace s0 @ [ReadConfigMap ''cray-configmap-ca-public-key'' ''services''] \<and>
      cert_path (s2\<lparr>recreation_necessary := f, clock := c\<rparr>) =
        (Inr p, s2\<lparr>recreation_necessary := f, clock := c,
                   trace := trace s2 @
                     [ReadConfigMap ''cray-configmap-ca-public-key'' ''services'']\<rparr>) \<and>
      config_reads (trace (snd (cert_path (s2\<lparr>recreation_necessary := f, clock := c\<rparr>))))
        = config_reads (trace s0) + 2)"
proof (intro conjI impI)
  assume h: "global_settings E s0 = (Inr v, s1) \<and> truthy v \<and>
    (\<not> truthy (priv_global_settings s0) \<or>
       (\<exists>t0. priv_global_settings_timestamp s0 = Some t0 \<and> t0 \<noteq> 0 \<and>
             time_time s0 - t0 > CONFIGMAP_CACHE_TIMEOUT)) \<and>
    timestamp_of c - time_time s0 \<le> CONFIGMAP_CACHE_TIMEOUT"
  then have post: "trace s1 = trace s0 @ [ReadConfigMap ''cray-ipxe-settings'' ''services''] \<and>
         priv_global_settings s1 = v \<and>
         priv_global_settings_timestamp s1 = Some (time_time s0) \<and>
         clock s1 = clock s0"
    by (intro global_settings_fetch [of E s0 v s1]) simp_all
  let ?s = "s1\<lparr>clock := c, recreation_necessary := f\<rparr>"
  have second: "global_settings E ?s = (Inr (priv_global_settings ?s), ?s)"
    using h post
    by (intro global_settings_cached [of ?s "time_time s0"]) (simp_all add: time_time_def)
  show "trace s1 = trace s0 @ [ReadConfigMap ''cray-ipxe-settings'' ''services'']"
    using post by simp
  show "global_settings E ?s = (Inr v, ?s)"
    using second post by simp
  show "config_reads (trace (snd (global_settings E ?s))) = config_reads (trace s0) + 1"
    using second post by (simp add: config_reads_def)
next
  assume h: "cert_path s0 = (Inr p, s2) \<and>
    cluster s0 (''cray-configmap-ca-public-key'', ''services'') = Some data \<and>
    data ''certificate_authority.crt'' = Some u \<and>
    universal_newlines u = u"
  let ?s = "s2\<lparr>recreation_necessary := f, clock := c\<rparr>"
  have post: "p = priv_cert_path s2 \<and> cluster s2 = cluster s0 \<and>
         trace s2 = trace s0 @ [ReadConfigMap ''cray-configmap-ca-public-key'' ''services''] \<and>
         read_local (priv_cert_path s2) ?s = (Inr (Some u), ?s)"
    using h by (intro cert_path_post [where f = f and c = c and ?s0.0 = s0 and data = data]) simp_all
  have second: "cert_path ?s =
           (Inr (priv_cert_path ?s),
            ?s\<lparr>trace := trace ?s @ [ReadConfigMap ''cray-configmap-ca-public-key'' ''services'']\<rparr>)"
    using h post by (intro cert_path_unchanged [of ?s u data]) simp_all
  show "trace s2 = trace s0 @ [ReadConfigMap ''cray-configmap-ca-public-key'' ''services'']"
    using post by simp
  show "cert_path ?s =
        (Inr p, s2\<lparr>recreation_necessary := f, clock := c,
                   trace := trace s2 @
                     [ReadConfigMap ''cray-configmap-ca-public-key'' ''services'']\<rparr>)"
    using second post by simp
  show "config_reads (trace (snd (cert_path ?s))) = config_reads (trace s0) + 2"
    using second post by (simp add: config_reads_def)
qed

lemma cert_path_cluster: "cluster (snd (cert_path s)) = cluster s"
  by (auto simp: cert_path_def bnd_def ret_def lift_def emit_def getitem_def read_local_def
      read_file_def read_namespaced_config_map_def write_temp_def unlink_def Let_def
      split: option.splits sum.splits if_splits prod.splits pyval.splits scalar.splits)

lemma demo_cert_twice:
  "fst (cert_path demo_state) = Inr (Some ''/ipxe/tmp0'')"
  "clock (snd (cert_path demo_state)) = clock demo_state"
  "fst (cert_path (snd (cert_path demo_state))) = Inr (Some ''/ipxe/tmp0'')"
  "config_reads (trace (snd (cert_path (snd (cert_path demo_state))))) = 2"
  by code_simp+

theorem twice_in_succession_counterexample:
  "fst (cert_path demo_state) = Inr (Some ''/ipxe/tmp0'') \<and>
   cluster (snd (cert_path demo_state)) = cluster demo_state \<and>
   clock (snd (cert_path demo_state)) = clock demo_state \<and>
   fst (cert_path (snd (cert_path demo_state))) = Inr (Some ''/ipxe/tmp0'') \<and>
   config_reads (trace demo_state) = 0 \<and>
   config_reads (trace (snd (cert_path (snd (cert_path demo_state))))) = 2"
  using demo_cert_twice cert_path_cluster [of demo_state]
  by (simp add: demo_state_def world0_def config_reads_def)

lemma demo_settings_first:
  "fst (global_settings demo_env demo_state) = Inr (Dict [(''cray_ipxe_build_x86'', SBool False)])"
  "\<not> truthy (priv_global_settings demo_state)"
  "trace demo_state = []"
  by code_simp+

lemma demo_times: "timestamp_of 1001000000 - time_time demo_state \<le> CONFIGMAP_CACHE_TIMEOUT"
  by (simp add: timestamp_of_def time_time_def demo_state_def world0_def
      CONFIGMAP_CACHE_TIMEOUT_def)

lemma demo_cert_remote:
  "cluster demo_state (''cray-configmap-ca-public-key'', ''services'') =
     Some [''certificate_authority.crt'' \<mapsto> ''CERT'']"
  "universal_newlines ''CERT'' = ''CERT''"
  by (simp_all add: demo_state_def demo_cluster_def)

theorem twice_in_succession_witness:
  "fst (global_settings demo_env demo_state) =
     Inr (Dict [(''cray_ipxe_build_x86'', SBool False)]) \<and>
   fst (global_settings demo_env
         ((snd (global_settings demo_env demo_state))
            \<lparr>clock := 1001000000, recreation_necessary := False\<rparr>)) =
     Inr (Dict [(''cray_ipxe_build_x86'', SBool False)]) \<and>
   \<not> recreation_necessary
       (snd (global_settings demo_env
              ((snd (global_settings demo_env demo_state))
                 \<lparr>clock := 1001000000, recreation_necessary := False\<rparr>))) \<and>
   config_reads
     (trace (snd (global_settings demo_env
                   ((snd (global_settings demo_env demo_state))
                      \<lparr>clock := 1001000000, recreation_necessary := False\<rparr>)))) = 1 \<and>
   fst (cert_path demo_state) = Inr (Some ''/ipxe/tmp0'') \<and>
   \<not> recreation_necessary
       (snd (cert_path ((snd (cert_path demo_state))
                          \<lparr>recreation_necessary := False, clock := 1001000000\<rparr>))) \<and>
   config_reads
     (trace (snd (cert_path ((snd (cert_path demo_state))
                               \<lparr>recreation_necessary := False, clock := 1001000000\<rparr>)))) = 2"
proof -
  have g: "global_settings demo_env demo_state =
           (Inr (Dict [(''cray_ipxe_build_x86'', SBool False)]),
            snd (global_settings demo_env demo_state))"
    using demo_settings_first(1) by (metis prod.collapse)
  have c: "cert_path demo_state = (Inr (Some ''/ipxe/tmp0''), snd (cert_path demo_state))"
    using demo_cert_twice(1) by (metis prod.collapse)
  show ?thesis
    using twice_in_succession
            [where E = demo_env and ?s0.0 = demo_state
               and v = "Dict [(''cray_ipxe_build_x86'', SBool False)]"
               and ?s1.0 = "snd (global_settings demo_env demo_state)"
               and c = 1001000000 and f = False
               and p = "Some ''/ipxe/tmp0''" and ?s2.0 = "snd (cert_path demo_state)"
               and data = "[''certificate_authority.crt'' \<mapsto> ''CERT'']" and u = "''CERT''"]
          g c demo_settings_first demo_times demo_cert_remote demo_cert_twice(1)
    by (simp add: config_reads_def)
qed
















lemma pair_fst: "fst p = r \<Longrightarrow> p = (r, snd p)"
  by (cases p) simp










subsection \<open>The build cycle\<close>

lemma global_settings_effect:
  assumes "global_settings E s = (r, s')"
  shows "(trace s' = trace s \<or>
          trace s' = trace s @ [ReadConfigMap ''cray-ipxe-settings'' ''services'']) \<and>
         (recreation_necessary s \<longrightarrow> recreation_necessary s') \<and>
         (trace s' = trace s \<longrightarrow> recreation_necessary s' = recreation_necessary s) \<and>
         files s' = files s \<and> timestamps s' = timestamps s \<and> cluster s' = cluster s \<and>
         clock s' = clock s \<and> klass s' = klass s \<and> root_level s' = root_level s"
  using assms
  by (auto simp: global_settings_def bnd_def ret_def lift_def emit_def
      read_namespaced_config_map_def Let_def py_eq_refl
      split: option.splits sum.splits if_splits prod.splits)

lemma global_settings_hit:
  assumes "truthy (priv_global_settings s)"
      and "priv_global_settings_timestamp s = Some t"
      and "time_time s - t \<le> CONFIGMAP_CACHE_TIMEOUT"
  shows "global_settings E (s\<lparr>root_level := l\<rparr>) = (Inr (priv_global_settings s), s\<lparr>root_level := l\<rparr>)"
  using assms by (simp add: global_settings_def bnd_def ret_def py_eq_refl time_time_def)

lemma set_log_level_effect:
  assumes "set_log_level E s = (r, s')"
  shows "(trace s' = trace s \<or>
          trace s' = trace s @ [ReadConfigMap ''cray-ipxe-settings'' ''services'']) \<and>
         (recreation_necessary s \<longrightarrow> recreation_necessary s') \<and>
         (trace s' = trace s \<longrightarrow> recreation_necessary s' = recreation_necessary s) \<and>
         files s' = files s \<and> timestamps s' = timestamps s \<and> cluster s' = cluster s \<and>
         clock s' = clock s \<and> klass s' = klass s"
proof -
  obtain r1 s1 where g: "global_settings E s = (r1, s1)"
    by (cases "global_settings E s")
  have "trace s' = trace s1 \<and> recreation_necessary s' = recreation_necessary s1 \<and>
        files s' = files s1 \<and> timestamps s' = timestamps s1 \<and> cluster s' = cluster s1 \<and>
        clock s' = clock s1 \<and> klass s' = klass s1"
    using assms g
    by (auto simp: set_log_level_def bnd_def lift_def
        split: sum.splits if_splits prod.splits)
  then show ?thesis
    using global_settings_effect [OF g] by simp
qed

lemma enabled_effect:
  assumes "enabled E s = (r, s')"
  shows "(trace s' = trace s \<or>
          trace s' = trace s @ [ReadConfigMap ''cray-ipxe-settings'' ''services'']) \<and>
         (recreation_necessary s \<longrightarrow> recreation_necessary s') \<and>
         (trace s' = trace s \<longrightarrow> recreation_necessary s' = recreation_necessary s) \<and>
         files s' = files s \<and> timestamps s' = timestamps s \<and> cluster s' = cluster s \<and>
         clock s' = clock s \<and> klass s' = klass s"
proof -
  obtain r1 s1 where g: "global_settings E s = (r1, s1)"
    by (cases "global_settings E s")
  have "s' = s1"
    using assms g
    by (auto simp: enabled_def bnd_def lift_def split: sum.splits)
  then show ?thesis
    using global_settings_effect [OF g] by simp
qed

lemma bnd_sleep: "bnd (sleep n) f s = f () (snd (sleep n s))"
  by (simp add: bnd_def sleep_def)

lemma bnd_ret: "bnd (ret x) f s = f x s"
  by (simp add: bnd_def ret_def)

lemma sleep_effect:
  "trace (snd (sleep n s)) = trace s @ [Sleep n]"
  "recreation_necessary (snd (sleep n s)) = recreation_necessary s"
  "files (snd (sleep n s)) = files s"
  "cluster (snd (sleep n s)) = cluster s"
  "clock (snd (sleep n s)) = clock s + n * 1000000"
  "priv_global_settings (snd (sleep n s)) = priv_global_settings s"
  "priv_global_settings_timestamp (snd (sleep n s)) = priv_global_settings_timestamp s"
  by (simp_all add: sleep_def heartbeat_catch_up_def Let_def split: option.splits)

lemma build_command_length:
  assumes "build_command E s = (Inr bc, s')"
  shows "5 \<le> length bc"
  using assms
  by (auto simp: build_command_def bnd_def ret_def split: sum.splits prod.splits)

lemma unpack2_long: "3 \<le> length xs \<Longrightarrow> unpack2 xs = Inl ValueError"
  by (auto simp: unpack2_def split: list.splits)

text \<open>
  The list that \<open>build_command\<close> returns has at least five elements, so unpacking it
  into two names raises \<open>ValueError\<close>: the body never gets past that line.
\<close>

lemma rebuild_if_necessary_raises:
  "\<exists>e s1. rebuild_if_necessary E s = (Inl e, s1) \<and>
          (case build_command E s of
             (Inl e', s') \<Rightarrow> e = e' \<and> s1 = s'
           | (Inr bc, s') \<Rightarrow> e = ValueError \<and> s1 = s')"
proof (cases "build_command E s")
  case (Pair r s')
  show ?thesis
  proof (cases r)
    case (Inl e)
    then show ?thesis using Pair by (simp add: rebuild_if_necessary_def bnd_def)
  next
    case (Inr bc)
    then have "unpack2 bc = Inl ValueError"
      using Pair build_command_length [of E s bc s'] by (simp add: unpack2_long)
    then show ?thesis using Pair Inr by (simp add: rebuild_if_necessary_def bnd_def lift_def)
  qed
qed

lemma cycle_Disabled:
  assumes "cycle E first_time s = (Inr Disabled, s')"
  shows "\<exists>u1 s1 en.
           set_log_level E s = (Inr u1, s1) \<and>
           enabled E (if first_time then s1 else snd (sleep TIME_BETWEEN_BUILDCHECKS s1))
             = (Inr en, s') \<and> \<not> scalar_truthy en"
proof -
  obtain r1 s1 where a: "set_log_level E s = (r1, s1)"
    by (cases "set_log_level E s")
  then obtain u1 where r1: "r1 = Inr u1"
    using assms by (cases r1) (auto simp: cycle_def bnd_def)
  let ?s2 = "if first_time then s1 else snd (sleep TIME_BETWEEN_BUILDCHECKS s1)"
  obtain r3 s3 where b: "enabled E ?s2 = (r3, s3)"
    by (cases "enabled E ?s2")
  have c: "cycle E first_time s =
           (case r3 of Inl e \<Rightarrow> (Inl e, s3)
            | Inr en \<Rightarrow> (if \<not> scalar_truthy en then ret Disabled else rebuild_if_necessary E) s3)"
    using a r1 b
    by (cases first_time)
       (auto simp: cycle_def bnd_sleep bnd_ret bnd_def [of "set_log_level E"]
          bnd_def [of "enabled E"] split: sum.splits)
  obtain en where r3: "r3 = Inr en"
    using assms c by (cases r3) auto
  have "\<not> scalar_truthy en \<and> s3 = s'"
    using assms c r3 rebuild_if_necessary_raises [of E s3] by (auto simp: ret_def split: if_splits)
  then show ?thesis
    using a r1 b r3 by auto
qed

lemma set_log_level_hit:
  assumes "truthy (priv_global_settings s)"
      and "priv_global_settings_timestamp s = Some t"
      and "time_time s - t \<le> CONFIGMAP_CACHE_TIMEOUT"
      and "set_log_level E s = (r, s1)"
  shows "trace s1 = trace s \<and> priv_global_settings s1 = priv_global_settings s \<and>
         priv_global_settings_timestamp s1 = priv_global_settings_timestamp s \<and>
         clock s1 = clock s"
  using assms global_settings_cached [of s t E]
  by (auto simp: set_log_level_def bnd_def lift_def split: sum.splits if_splits)

lemma enabled_hit:
  assumes "truthy (priv_global_settings s)"
      and "priv_global_settings_timestamp s = Some t"
      and "time_time s - t \<le> CONFIGMAP_CACHE_TIMEOUT"
      and "enabled E s = (r, s1)"
  shows "s1 = s"
  using assms global_settings_cached [of s t E]
  by (auto simp: enabled_def bnd_def lift_def split: sum.splits)

text \<open>
  C3, as the code has it.  A pass that ends at the check of the enabled flag has issued
  only reads of the global settings config map, from which the flag itself is read (and
  the sleep between passes): at most two reads, and none when the settings cache is not
  empty and stays within its timeout until the flag is read.  It leaves the text files
  and the cluster alone, so no certificate, script or token was fetched and nothing was
  built.  A rebuild flag that is set on entry, as it is from the making of the builder
  on, is left as it is, and so is any flag when no settings were read.
\<close>

theorem disabled_cycle:
  assumes "cycle E first_time s = (Inr Disabled, s')"
  shows "(\<exists>evs. trace s' = trace s @ evs \<and>
            (\<forall>ev \<in> set evs. ev = ReadConfigMap ''cray-ipxe-settings'' ''services'' \<or>
                             ev = Sleep TIME_BETWEEN_BUILDCHECKS) \<and>
            config_reads evs \<le> 2 \<and>
            (config_reads evs = 0 \<longrightarrow> recreation_necessary s' = recreation_necessary s) \<and>
            (truthy (priv_global_settings s) \<and>
             (\<exists>t. priv_global_settings_timestamp s = Some t \<and>
                  time_time s + (if first_time then 0 else of_int TIME_BETWEEN_BUILDCHECKS) - t
                    \<le> CONFIGMAP_CACHE_TIMEOUT)
             \<longrightarrow> config_reads evs = 0)) \<and>
         (recreation_necessary s \<longrightarrow> recreation_necessary s' = recreation_necessary s) \<and>
         files s' = files s \<and> cluster s' = cluster s"
proof -
  let ?R = "ReadConfigMap ''cray-ipxe-settings'' ''services''"
  let ?S = "Sleep TIME_BETWEEN_BUILDCHECKS"
  let ?sl = "\<lambda>s1. snd (sleep TIME_BETWEEN_BUILDCHECKS s1)"
  obtain u1 s1 en where a: "set_log_level E s = (Inr u1, s1)"
    and b: "enabled E (if first_time then s1 else ?sl s1) = (Inr en, s')"
    using cycle_Disabled [OF assms] by blast
  let ?s2 = "if first_time then s1 else ?sl s1"
  note ea = set_log_level_effect [OF a]
  note eb = enabled_effect [OF b]
  have ea_keep: "recreation_necessary s \<Longrightarrow> recreation_necessary s1"
    and ea_quiet: "trace s1 = trace s \<Longrightarrow> recreation_necessary s1 = recreation_necessary s"
    and ea_frame: "files s1 = files s" "cluster s1 = cluster s"
    using ea by simp_all
  have "trace s1 = trace s \<or> trace s1 = trace s @ [?R]"
    using ea by simp
  then obtain e1 where e1: "trace s1 = trace s @ e1" "e1 = [] \<or> e1 = [?R]"
    by auto
  obtain sl where sl: "trace ?s2 = trace s1 @ sl" "sl = [] \<or> sl = [?S]"
    by (cases first_time) (auto simp: sleep_effect)
  have "trace s' = trace ?s2 \<or> trace s' = trace ?s2 @ [?R]"
    using eb by simp
  then obtain e2 where e2: "trace s' = trace ?s2 @ e2" "e2 = [] \<or> e2 = [?R]"
    by auto
  have tr: "trace s' = trace s @ (e1 @ sl @ e2)"
    using e1(1) sl(1) e2(1) by simp
  have only: "\<forall>ev \<in> set (e1 @ sl @ e2). ev = ?R \<or> ev = ?S"
    using e1(2) sl(2) e2(2) by auto
  have cnt: "config_reads (e1 @ sl @ e2) \<le> 2"
    using e1(2) sl(2) e2(2) by (auto simp: config_reads_def)
  have rl2: "recreation_necessary ?s2 = recreation_necessary s1"
    by (simp add: sleep_effect)
  have fr2: "files ?s2 = files s1" "cluster ?s2 = cluster s1"
    by (simp_all add: sleep_effect)
  have eb_keep: "recreation_necessary ?s2 \<Longrightarrow> recreation_necessary s'"
    and eb_quiet: "trace s' = trace ?s2 \<Longrightarrow> recreation_necessary s' = recreation_necessary ?s2"
    and eb_frame: "files s' = files ?s2" "cluster s' = cluster ?s2"
    using eb by simp_all
  have quiet: "recreation_necessary s' = recreation_necessary s"
    if "config_reads (e1 @ sl @ e2) = 0"
  proof -
    have "e1 = []" "e2 = []"
      using that e1(2) e2(2) by (auto simp: config_reads_def)
    then have "trace s1 = trace s" "trace s' = trace ?s2"
      using e1(1) e2(1) by simp_all
    then show ?thesis
      using ea_quiet eb_quiet rl2 by simp
  qed
  have hit: "config_reads (e1 @ sl @ e2) = 0"
    if h: "truthy (priv_global_settings s) \<and>
           (\<exists>t. priv_global_settings_timestamp s = Some t \<and>
                time_time s + (if first_time then 0 else of_int TIME_BETWEEN_BUILDCHECKS) - t
                  \<le> CONFIGMAP_CACHE_TIMEOUT)"
  proof -
    obtain t where t: "priv_global_settings_timestamp s = Some t"
      "time_time s + (if first_time then 0 else of_int TIME_BETWEEN_BUILDCHECKS) - t
         \<le> CONFIGMAP_CACHE_TIMEOUT"
      using h by blast
    have t1: "time_time s - t \<le> CONFIGMAP_CACHE_TIMEOUT"
      using t(2) by (simp add: TIME_BETWEEN_BUILDCHECKS_def split: if_splits)
    note h1 = set_log_level_hit [OF _ t(1) t1 a]
    have s1: "trace s1 = trace s" "truthy (priv_global_settings ?s2)"
      "priv_global_settings_timestamp ?s2 = Some t"
      using h h1 t(1) by (auto simp: sleep_effect)
    have "time_time ?s2 =
            time_time s + (if first_time then 0 else of_int TIME_BETWEEN_BUILDCHECKS)"
      using h h1 by (auto simp: time_time_def timestamp_of_def field_simps sleep_effect)
    then have t2: "time_time ?s2 - t \<le> CONFIGMAP_CACHE_TIMEOUT"
      using t(2) by simp
    have "s' = ?s2"
      using enabled_hit [OF s1(2) s1(3) t2 b] .
    then have "e1 = []" "e2 = []"
      using s1(1) e1(1) e2(1) by auto
    then show ?thesis
      using sl(2) by (auto simp: config_reads_def)
  qed
  have keep: "recreation_necessary s \<longrightarrow> recreation_necessary s' = recreation_necessary s"
    using ea_keep eb_keep rl2 by auto
  have frame: "files s' = files s \<and> cluster s' = cluster s"
    using ea_frame eb_frame fr2 by simp
  show ?thesis
  proof (intro conjI)
    show "\<exists>evs. trace s' = trace s @ evs \<and>
            (\<forall>ev \<in> set evs. ev = ?R \<or> ev = ?S) \<and>
            config_reads evs \<le> 2 \<and>
            (config_reads evs = 0 \<longrightarrow> recreation_necessary s' = recreation_necessary s) \<and>
            (truthy (priv_global_settings s) \<and>
             (\<exists>t. priv_global_settings_timestamp s = Some t \<and>
                  time_time s + (if first_time then 0 else of_int TIME_BETWEEN_BUILDCHECKS) - t
                    \<le> CONFIGMAP_CACHE_TIMEOUT)
             \<longrightarrow> config_reads evs = 0)"
      using tr only cnt quiet hit by (intro exI [of _ "e1 @ sl @ e2"]) blast
  qed (use keep frame in simp_all)
qed

text \<open>A new x86 builder in the demo cluster, and the start of its heartbeat.\<close>

lemma demo_state_init:
  "builder_init X86Builder 40 (world0\<lparr>cluster := demo_cluster\<rparr>) = Inr demo_state"
  by (simp add: builder_init_def ipxeTimestamp_init_def bind_err_def dirname_def
      LIVENESS_PATH_def world0_def demo_state_def new_tsfs_def timestamp_of_def)

lemma demo_heartbeat_start: "heartbeat_start demo_state = (Inr (), demo_started)"
proof -
  have "refresh new_tsfs LIVENESS_PATH 1000000000 = new_tsfs"
    by (auto simp: refresh_def value_set_def data_set_def data_get_def new_tsfs_def
        timestamp_of_def Let_def fun_eq_iff)
  then show ?thesis
    by (simp add: heartbeat_start_def liveliness_heartbeat_def byref_def bind_err_def
        demo_state_def demo_started_def world0_def HEARTBEAT_PERIOD_def)
       (simp add: new_tsfs_def)
qed

lemma demo_disabled_first:
  "fst (cycle demo_env True demo_started) = Inr Disabled"
  "trace demo_started = []"
  "trace (snd (cycle demo_env True demo_started)) =
     [ReadConfigMap ''cray-ipxe-settings'' ''services'']"
  "recreation_necessary demo_started = True"
  "recreation_necessary (snd (cycle demo_env True demo_started)) = True"
  by code_simp+

lemma demo_disabled_second:
  "fst (cycle demo_env False (snd (cycle demo_env True demo_started))) = Inr Disabled"
  "trace (snd (cycle demo_env False (snd (cycle demo_env True demo_started)))) =
     [ReadConfigMap ''cray-ipxe-settings'' ''services'', Sleep 60]"
  "recreation_necessary (snd (cycle demo_env False (snd (cycle demo_env True demo_started))))
     = True"
  by code_simp+

text \<open>
  During the sleep of the second pass the heartbeat has made its rounds: the record,
  touched at second 1000 when the builder was made, is now touched at second 1060.
\<close>

lemma demo_heartbeat_rounds:
  "value_get (timestamps demo_started) LIVENESS_PATH = Inr (Some 1000000000)"
  "value_get (timestamps (snd (cycle demo_env False (snd (cycle demo_env True demo_started)))))
     LIVENESS_PATH = Inr (Some 1060000000)"
  by code_simp+

theorem disabled_cycle_counterexample:
  "builder_init X86Builder 40 (world0\<lparr>cluster := demo_cluster\<rparr>) = Inr demo_state \<and>
   heartbeat_start demo_state = (Inr (), demo_started) \<and>
   fst (cycle demo_env True demo_started) = Inr Disabled \<and>
   trace demo_started = [] \<and>
   trace (snd (cycle demo_env True demo_started)) =
     [ReadConfigMap ''cray-ipxe-settings'' ''services''] \<and>
   config_reads (trace (snd (cycle demo_env True demo_started))) =
     config_reads (trace demo_started) + 1"
  using demo_state_init demo_heartbeat_start demo_disabled_first
  by (simp add: config_reads_def)

theorem disabled_cycle_witness:
  "cycle demo_env True demo_started =
     (Inr Disabled, snd (cycle demo_env True demo_started)) \<and>
   trace (snd (cycle demo_env True demo_started)) =
     [ReadConfigMap ''cray-ipxe-settings'' ''services''] \<and>
   files (snd (cycle demo_env True demo_started)) = files demo_started \<and>
   cluster (snd (cycle demo_env True demo_started)) = cluster demo_started \<and>
   recreation_necessary demo_started \<and>
   recreation_necessary (snd (cycle demo_env True demo_started)) \<and>
   cycle demo_env False (snd (cycle demo_env True demo_started)) =
     (Inr Disabled, snd (cycle demo_env False (snd (cycle demo_env True demo_started)))) \<and>
   trace (snd (cycle demo_env False (snd (cycle demo_env True demo_started)))) =
     trace (snd (cycle demo_env True demo_started)) @ [Sleep 60] \<and>
   recreation_necessary (snd (cycle demo_env False (snd (cycle demo_env True demo_started))))"
proof -
  let ?s1 = "snd (cycle demo_env True demo_started)"
  let ?s2 = "snd (cycle demo_env False ?s1)"
  have a: "cycle demo_env True demo_started = (Inr Disabled, ?s1)"
    using demo_disabled_first(1) by (rule pair_fst)
  have b: "cycle demo_env False ?s1 = (Inr Disabled, ?s2)"
    using demo_disabled_second(1) by (rule pair_fst)
  note first = disabled_cycle [OF a]
  note second = disabled_cycle [OF b]
  have fa: "files ?s1 = files demo_started \<and> cluster ?s1 = cluster demo_started \<and>
            recreation_necessary ?s1"
    using first demo_disabled_first(4) by blast
  have fb: "recreation_necessary ?s2"
    using second fa by blast
  show ?thesis
    using a b fa fb demo_disabled_first(3,4) demo_disabled_second(2) by simp
qed

subsection \<open>No pass through the loop body reaches the toolchain\<close>

lemma quiet_step_refl: "quiet_step s s"
  by (simp add: quiet_step_def)

lemma quiet_step_trans: "quiet_step a b \<Longrightarrow> quiet_step b c \<Longrightarrow> quiet_step a c"
  by (auto simp: quiet_step_def)

lemma quiet_ret: "quiet (ret x)"
  by (simp add: quiet_def ret_def quiet_step_refl)

lemma quiet_raise: "quiet (raise e)"
  by (simp add: quiet_def raise_def quiet_step_refl)

lemma quiet_lift: "quiet (lift r)"
  by (simp add: quiet_def lift_def quiet_step_refl)

lemma quiet_bnd: "quiet m \<Longrightarrow> (\<And>x. quiet (f x)) \<Longrightarrow> quiet (bnd m f)"
  unfolding quiet_def
proof
  fix s
  assume m: "\<forall>s. quiet_step s (snd (m s))" and f: "\<And>x. \<forall>s. quiet_step s (snd (f x s))"
  obtain r s1 where ms: "m s = (r, s1)"
    by (cases "m s")
  have 1: "quiet_step s s1"
    using m ms by (metis snd_conv)
  show "quiet_step s (snd (bnd m f s))"
  proof (cases r)
    case (Inl e)
    then show ?thesis using ms 1 by (simp add: bnd_def)
  next
    case (Inr x)
    then have "snd (bnd m f s) = snd (f x s1)"
      using ms by (simp add: bnd_def)
    then show ?thesis
      using 1 f [of x] quiet_step_trans by metis
  qed
qed

lemma quiet_step_bnd:
  "quiet m \<Longrightarrow> (\<And>x. quiet (f x)) \<Longrightarrow> quiet_step s (snd (bnd m f s))"
  using quiet_bnd [of m f] by (simp add: quiet_def)

lemma quiet_if: "quiet a \<Longrightarrow> quiet b \<Longrightarrow> quiet (if c then a else b)"
  by simp

lemma quiet_emit: "\<not> is_build_event ev \<Longrightarrow> quiet (emit ev)"
  by (simp add: quiet_def emit_def quiet_step_def)

lemma quiet_read_namespaced_config_map: "quiet (read_namespaced_config_map name namespace)"
  by (auto simp: quiet_def read_namespaced_config_map_def bnd_def emit_def quiet_step_def
      split: option.splits)

lemma quiet_read_file: "quiet (read_file path)"
  by (auto simp: quiet_def read_file_def quiet_step_def split: option.splits)

lemma quiet_unlink: "quiet (unlink path)"
  by (auto simp: quiet_def unlink_def quiet_step_def split: option.splits)

lemma quiet_write_temp: "quiet (write_temp v)"
  by (auto simp: quiet_def write_temp_def quiet_step_def Let_def
      split: pyval.splits scalar.splits)

lemma quiet_utime: "quiet (utime path)"
  by (auto simp: quiet_def utime_def emit_def quiet_step_def)

lemma quiet_read_local: "quiet (read_local p)"
  by (cases p) (simp_all add: read_local_def quiet_ret quiet_bnd quiet_read_file)

lemma quiet_basename_opt: "quiet (basename_opt p)"
  by (cases p) (simp_all add: basename_opt_def quiet_ret quiet_raise)

lemma quiet_global_settings: "quiet (global_settings E)"
  unfolding quiet_def
proof
  fix s
  obtain r s' where g: "global_settings E s = (r, s')"
    by (cases "global_settings E s")
  have "quiet_step s s'"
    using global_settings_effect [OF g] by (auto simp: quiet_step_def)
  then show "quiet_step s (snd (global_settings E s))"
    using g by simp
qed

lemmas quiet_intros =
  quiet_bnd quiet_ret quiet_raise quiet_lift quiet_if quiet_global_settings
  quiet_read_namespaced_config_map quiet_read_file quiet_unlink quiet_write_temp
  quiet_utime quiet_read_local quiet_basename_opt

lemma quiet_enabled: "quiet (enabled E)"
  unfolding quiet_def enabled_def by (intro allI quiet_step_bnd quiet_intros)

lemma quiet_build_with_certs: "quiet (build_with_certs E)"
  unfolding build_with_certs_def by (intro quiet_intros)

lemma quiet_token_min_remaining_valid_time: "quiet (token_min_remaining_valid_time E)"
  unfolding token_min_remaining_valid_time_def by (intro quiet_intros)

lemma quiet_cray_ipxe_token_host: "quiet (cray_ipxe_token_host E)"
  unfolding cray_ipxe_token_host_def by (intro quiet_intros)

lemma quiet_set_flag: "quiet (\<lambda>s. (Inr x, s\<lparr>recreation_necessary := True\<rparr>))"
  by (simp add: quiet_def quiet_step_def)

lemma quiet_set_log_level: "quiet (set_log_level E)"
  unfolding set_log_level_def
  by (intro quiet_intros)
     (auto simp: quiet_def quiet_step_def split: sum.splits)

lemma quiet_sleep: "quiet (sleep n)"
  by (simp add: quiet_def quiet_step_def sleep_effect)

lemma quiet_s3_host: "quiet (s3_host E)"
  by (auto simp: quiet_def s3_host_def read_namespaced_config_map_def bnd_def emit_def
      quiet_step_def Let_def split: option.splits sum.splits prod.splits if_splits)

lemma quiet_arch_build_dir: "quiet arch_build_dir"
  by (auto simp: quiet_def arch_build_dir_def quiet_step_def Let_def split: option.splits)

lemma quiet_configmap_name: "quiet configmap_name"
  by (auto simp: quiet_def configmap_name_def X86Builder_configmap_name_def
      Arm64builder_configmap_name_def quiet_step_def Let_def split: cls.splits)

lemma quiet_cert_path: "quiet cert_path"
  unfolding quiet_def cert_path_def
proof (intro allI quiet_step_bnd quiet_intros)
  fix s :: state and existing_cert :: "string option" and data :: "string \<rightharpoonup> string"
    and upstream_cert :: string
  have a: "quiet (\<lambda>s2. case priv_cert_path s2 of
                          None \<Rightarrow> (Inr (), s2)
                        | Some path \<Rightarrow>
                            if path \<noteq> [] \<and> files s2 path \<noteq> None
                            then bnd (unlink path)
                                   (\<lambda>_ s3. (Inr (), s3\<lparr>priv_cert_path := None\<rparr>)) s2
                            else (Inr (), s2))"
    by (auto simp: quiet_def quiet_step_def bnd_def unlink_def split: option.splits)
  have b: "quiet (bnd (write_temp (Atom (SStr upstream_cert)))
                    (\<lambda>name s4. (Inr (), s4\<lparr>priv_cert_path := Some name\<rparr>)))"
    by (intro quiet_intros) (simp add: quiet_def quiet_step_def)
  have c: "quiet (bnd (\<lambda>s2. case priv_cert_path s2 of
                          None \<Rightarrow> (Inr (), s2)
                        | Some path \<Rightarrow>
                            if path \<noteq> [] \<and> files s2 path \<noteq> None
                            then bnd (unlink path)
                                   (\<lambda>_ s3. (Inr (), s3\<lparr>priv_cert_path := None\<rparr>)) s2
                            else (Inr (), s2))
                 (\<lambda>_. bnd (write_temp (Atom (SStr upstream_cert)))
                         (\<lambda>name s4. (Inr (), s4\<lparr>priv_cert_path := Some name\<rparr>))))"
    by (rule quiet_bnd [OF a]) (rule b)
  show "quiet (\<lambda>s1.
                 bnd (\<lambda>s2. case priv_cert_path s2 of
                              None \<Rightarrow> (Inr (), s2)
                            | Some path \<Rightarrow>
                                if path \<noteq> [] \<and> files s2 path \<noteq> None
                                then bnd (unlink path)
                                       (\<lambda>_ s3. (Inr (), s3\<lparr>priv_cert_path := None\<rparr>)) s2
                                else (Inr (), s2))
                 (\<lambda>_. bnd (write_temp (Atom (SStr upstream_cert)))
                         (\<lambda>name s4. (Inr (), s4\<lparr>priv_cert_path := Some name\<rparr>)))
                 (s1\<lparr>recreation_necessary := True\<rparr>))"
    unfolding quiet_def
  proof
    fix s1
    have "quiet_step s1 (s1\<lparr>recreation_necessary := True\<rparr>)"
      by (simp add: quiet_step_def)
    then show "quiet_step s1 (snd (bnd (\<lambda>s2. case priv_cert_path s2 of
                              None \<Rightarrow> (Inr (), s2)
                            | Some path \<Rightarrow>
                                if path \<noteq> [] \<and> files s2 path \<noteq> None
                                then bnd (unlink path)
                                       (\<lambda>_ s3. (Inr (), s3\<lparr>priv_cert_path := None\<rparr>)) s2
                                else (Inr (), s2))
                 (\<lambda>_. bnd (write_temp (Atom (SStr upstream_cert)))
                         (\<lambda>name s4. (Inr (), s4\<lparr>priv_cert_path := Some name\<rparr>)))
                 (s1\<lparr>recreation_necessary := True\<rparr>)))"
      using c quiet_step_trans unfolding quiet_def by blast
  qed
next
  fix s :: state and x :: unit
  show "quiet (\<lambda>s5. (Inr (priv_cert_path s5), s5))"
    by (simp add: quiet_def quiet_step_refl)
qed
lemma cycle_result:
  "fst (cycle E first_time s) \<noteq> Inr Built \<and> fst (cycle E first_time s) \<noteq> Inr Unchanged"
proof -
  obtain r1 s1 where a: "set_log_level E s = (r1, s1)"
    by (cases "set_log_level E s")
  let ?s2 = "if first_time then s1 else snd (sleep TIME_BETWEEN_BUILDCHECKS s1)"
  obtain r3 s3 where b: "enabled E ?s2 = (r3, s3)"
    by (cases "enabled E ?s2")
  obtain e s4 where c: "rebuild_if_necessary E s3 = (Inl e, s4)"
    using rebuild_if_necessary_raises [of E s3] by blast
  show ?thesis
    using a b c
    by (cases first_time)
       (auto simp: cycle_def bnd_sleep bnd_ret bnd_def [of "set_log_level E"]
          bnd_def [of "enabled E"] ret_def split: sum.splits if_splits)
qed

lemma enabled_cycle_eval:
  "fst (cycle demo_env True enabled_state) = Inl ValueError"
  "trace (snd (cycle demo_env True enabled_state)) =
     [ReadConfigMap ''cray-ipxe-settings'' ''services'',
      ReadConfigMap ''cray-ipxe-bss-ipxe'' ''services'',
      ReadConfigMap ''sts-rados-config'' ''services'',
      FetchToken
        ''https://api-gw-service-nmn.local/keycloak/realms/shasta/protocol/openid-connect/token'',
      UTime ''/ipxe/net/tcp/httpcore.c'']"
  "recreation_necessary (snd (cycle demo_env True enabled_state)) = True"
  "last_build_get (timestamps (snd (cycle demo_env True enabled_state))) LIVENESS_PATH =
     Inr None"
  "fst (build_command demo_env enabled_state) =
     Inr [''make'', ''bin-x86_64-efi/ipxe.efi'', ''DEBUG=httpcore,x509,efi_time'',
          ''EMBED=tmp0'', ''BEARER_TOKEN=jwt'']"
  by code_simp+

lemma quiet_bss_script_path: "quiet bss_script_path"
  by (auto simp: quiet_def quiet_step_def bss_script_path_def bnd_def ret_def emit_def
      read_local_def read_file_def read_namespaced_config_map_def write_temp_def unlink_def
      configmap_name_def X86Builder_configmap_name_def Arm64builder_configmap_name_def
      opt_val_def Let_def
      split: option.splits sum.splits prod.splits if_splits cls.splits)

lemma quiet_debug_script_path: "quiet (debug_script_path E)"
  by (auto simp: quiet_def quiet_step_def debug_script_path_def bnd_def ret_def raise_def
      lift_def emit_def read_local_def read_file_def read_namespaced_config_map_def
      write_temp_def unlink_def Let_def
      split: option.splits sum.splits prod.splits if_splits pyval.splits scalar.splits)

lemma quiet_fetch_token: "quiet (fetch_token E token_host)"
  by (auto simp: quiet_def quiet_step_def fetch_token_def bnd_def ret_def lift_def emit_def
      Let_def split: option.splits sum.splits prod.splits if_splits)

lemma quiet_bearer_token: "quiet (bearer_token E)"
  unfolding quiet_def bearer_token_def
proof (intro allI quiet_step_bnd quiet_intros quiet_token_min_remaining_valid_time
    quiet_cray_ipxe_token_host quiet_fetch_token)
  fix s :: state and mrv :: scalar
  show "quiet (\<lambda>s1. (token_expiring_soon (jwt_decode E) (time_time s1) (priv_bearer_token s) mrv,
                      s1))"
    by (simp add: quiet_def quiet_step_refl)
next
  fix tok :: "string option"
  show "quiet (\<lambda>s2. (Inr (), s2\<lparr>priv_bearer_token := tok\<rparr>))"
    by (simp add: quiet_def quiet_step_def)
next
  show "quiet (\<lambda>s3. (Inr (), s3\<lparr>recreation_necessary := True\<rparr>))"
    by (rule quiet_set_flag)
next
  show "quiet (\<lambda>s4. (Inr (priv_bearer_token s4), s4))"
    by (simp add: quiet_def quiet_step_refl)
qed

lemma quiet_cert_args: "quiet (cert_args E)"
  unfolding cert_args_def
  by (intro quiet_intros quiet_build_with_certs quiet_cert_path)

lemma quiet_s3_args: "quiet (s3_args E)"
  unfolding s3_args_def
  by (intro quiet_intros quiet_s3_host)

lemma quiet_build_command: "quiet (build_command E)"
  unfolding quiet_def build_command_def
  by (intro allI quiet_step_bnd quiet_intros quiet_arch_build_dir quiet_cert_args
      quiet_bss_script_path quiet_s3_args quiet_bearer_token)

text \<open>
  The list that \<open>build_command\<close> returns is unpacked into two names, which raises
  \<open>ValueError\<close>.  So, whatever the environment, the state and the pass: the loop body ends at the first
  \<open>continue\<close> or with an exception, it runs no toolchain, refreshes no marker and moves
  no binary, and it does not clear the rebuild flag.
\<close>

lemma cycle_never_builds:
  "quiet_step s (snd (cycle E first_time s)) \<and>
   fst (cycle E first_time s) \<noteq> Inr Built \<and> fst (cycle E first_time s) \<noteq> Inr Unchanged"
proof -
  have r: "quiet (rebuild_if_necessary E)"
    unfolding quiet_def
  proof
    fix s
    obtain r s' where b: "build_command E s = (r, s')"
      by (cases "build_command E s")
    obtain e s1 where e: "rebuild_if_necessary E s = (Inl e, s1)" and "s1 = s'"
      using rebuild_if_necessary_raises [of E s] b by (cases r) auto
    then show "quiet_step s (snd (rebuild_if_necessary E s))"
      using quiet_build_command [of E] b by (auto simp: quiet_def dest: spec [of _ s])
  qed
  have "quiet (cycle E first_time)"
    unfolding cycle_def
    by (intro quiet_intros quiet_set_log_level quiet_sleep quiet_enabled r)
  then show ?thesis
    using cycle_result [of E first_time s] by (simp add: quiet_def)
qed


subsection \<open>The end of the loop body\<close>

lemma universal_newlines_id: "CHR 0x0D \<notin> set u \<Longrightarrow> universal_newlines u = u"
  by (induction u rule: universal_newlines.induct) auto













text \<open>
  While the builder sleeps the heartbeat rewrites the touched time of the record; the
  last build that the builder recorded stays.
\<close>

lemma sleep_keeps_last_build:
  "data_get (timestamps (snd (sleep n s))) LIVENESS_PATH ''last_build'' =
   data_get (timestamps s) LIVENESS_PATH ''last_build''"
  by (simp add: sleep_def heartbeat_catch_up_def Let_def heartbeat_rounds_keeps
      split: option.splits)

lemma cycle_keeps_flag:
  "recreation_necessary s \<Longrightarrow> recreation_necessary (snd (cycle E first_time s))"
  using cycle_never_builds [of s E first_time] by (simp add: quiet_step_def)

text \<open>
  The rebuild flag is set when the builder is made, and no run of the loop clears it.
\<close>

lemma builder_init_flag: "builder_init c time_limit w = Inr s \<Longrightarrow> recreation_necessary s"
  by (auto simp: builder_init_def bind_err_def split: sum.splits)

lemma run_keeps_flag:
  "recreation_necessary s \<Longrightarrow> recreation_necessary (snd (run E n first_time s))"
proof (induction n arbitrary: s first_time)
  case 0
  then show ?case by simp
next
  case (Suc n)
  obtain r s1 where c: "cycle E first_time s = (r, s1)"
    by (cases "cycle E first_time s")
  have "recreation_necessary s1"
    using cycle_keeps_flag [OF Suc.prems, of E first_time] c by simp
  then show ?case
    using c Suc.IH [of s1 False] by (cases r) simp_all
qed

lemma call_keeps_flag:
  "recreation_necessary s \<Longrightarrow> recreation_necessary (snd (call E n s))"
proof -
  assume f: "recreation_necessary s"
  obtain r s1 where h: "heartbeat_start s = (r, s1)"
    by (cases "heartbeat_start s")
  have "recreation_necessary s1"
    using f h
    by (auto simp: heartbeat_start_def split: if_splits sum.splits)
  then show ?thesis
    using h run_keeps_flag [of s1 E n True] by (cases r) (simp_all add: call_def)
qed





end
